theory Spec2Isabelle
  imports Complex_Main "HOL-Library.Sublist"
begin

section \<open>JavaScript numbers\<close>

text \<open>
  A JavaScript number is an IEEE 754 binary64 value: a finite value, one of the two
  infinities, or \<open>NaN\<close>. A finite value is given by the real it denotes; the two zeros are
  not told apart (the page never divides by a zero and never prints a negative zero). A
  number that comes in with a payload is finite and is given as that real.

  Every arithmetic operation computes the exact result and rounds it to the nearest
  binary64 value, a tie going to the even significand (\<open>fl\<close>); a result that rounds to
  \<open>2^1024\<close> or beyond is an infinity. \<open>binade k x\<close> is the exponent \<open>e\<close> with
  \<open>2^e \<le> x < 2^(e+1)\<close>, found by halving or doubling \<open>x\<close> at most \<open>k\<close> times; the exact results
  that arise from binary64 operands lie between \<open>2^-2200\<close> and \<open>2^2200\<close>, or are zero. Below
  \<open>2^-1022\<close> the values are spaced \<open>2^-1074\<close> apart.
\<close>

datatype number = Finite real | PosInfinity | NegInfinity | NaN

definition rne :: "real \<Rightarrow> int" where
  "rne y =
     (let f = \<lfloor>y\<rfloor>; d = y - of_int f
      in if d < 1 / 2 then f else if 1 / 2 < d then f + 1 else if even f then f else f + 1)"

fun binade :: "nat \<Rightarrow> real \<Rightarrow> int" where
  "binade 0 x = 0"
| "binade (Suc k) x =
     (if 2 \<le> x then binade k (x / 2) + 1
      else if x < 1 then binade k (x * 2) - 1
      else 0)"

definition fl :: "real \<Rightarrow> number" where
  "fl x =
     (let q = 2 powi (max (binade 2200 \<bar>x\<bar>) (- 1022) - 52);
          r = of_int (rne (x / q)) * q
      in if 2 ^ 1024 \<le> r then PosInfinity
         else if r \<le> - (2 ^ 1024) then NegInfinity
         else Finite r)"

definition negative :: "number \<Rightarrow> bool" where
  "negative x = (case x of Finite a \<Rightarrow> a < 0 | NegInfinity \<Rightarrow> True | _ \<Rightarrow> False)"

definition signed_infinity :: "bool \<Rightarrow> number" where
  "signed_infinity neg = (if neg then NegInfinity else PosInfinity)"

fun fadd :: "number \<Rightarrow> number \<Rightarrow> number" where
  "fadd (Finite a) (Finite b) = fl (a + b)"
| "fadd NaN _ = NaN"
| "fadd _ NaN = NaN"
| "fadd PosInfinity NegInfinity = NaN"
| "fadd NegInfinity PosInfinity = NaN"
| "fadd PosInfinity _ = PosInfinity"
| "fadd _ PosInfinity = PosInfinity"
| "fadd NegInfinity _ = NegInfinity"
| "fadd _ NegInfinity = NegInfinity"

fun fneg :: "number \<Rightarrow> number" where
  "fneg (Finite a) = Finite (- a)"
| "fneg PosInfinity = NegInfinity"
| "fneg NegInfinity = PosInfinity"
| "fneg NaN = NaN"

definition fsub :: "number \<Rightarrow> number \<Rightarrow> number" where
  "fsub x y = fadd x (fneg y)"

fun fmul :: "number \<Rightarrow> number \<Rightarrow> number" where
  "fmul (Finite a) (Finite b) = fl (a * b)"
| "fmul NaN _ = NaN"
| "fmul _ NaN = NaN"
| "fmul x y =
     (if x = Finite 0 \<or> y = Finite 0 then NaN
      else signed_infinity (negative x \<noteq> negative y))"

fun fdiv :: "number \<Rightarrow> number \<Rightarrow> number" where
  "fdiv (Finite a) (Finite b) =
     (if b \<noteq> 0 then fl (a / b)
      else if a = 0 then NaN
      else signed_infinity (a < 0))"
| "fdiv NaN _ = NaN"
| "fdiv _ NaN = NaN"
| "fdiv (Finite a) _ = Finite 0"
| "fdiv x (Finite b) = signed_infinity (negative x \<noteq> (b < 0))"
| "fdiv _ _ = NaN"

text \<open>\<open>Math.round\<close>: the nearest integer, a tie going up; this is exact.\<close>

fun Math_round :: "number \<Rightarrow> number" where
  "Math_round (Finite x) = Finite (of_int \<lfloor>x + 1 / 2\<rfloor>)"
| "Math_round x = x"


section \<open>The JavaScript platform functions the program calls\<close>

text \<open>
  Three facts about the machine the code runs on are not determined by the program text and
  are collected in a record that every function reading them takes as an argument:
  \<^item> \<open>clockYear\<close>: the result of \<open>new Date().getFullYear()\<close>;
  \<^item> \<open>localeFormat\<close>: \<open>Number.prototype.toLocaleString()\<close> under the host's default locale;
  \<^item> \<open>Math_pow\<close>: \<open>Math.pow\<close>, whose accuracy ECMAScript leaves to the implementation.
\<close>

record host =
  clockYear :: int
  localeFormat :: "real \<Rightarrow> string"
  Math_pow :: "number \<Rightarrow> number \<Rightarrow> number"

definition hex_char :: "nat \<Rightarrow> char" where
  "hex_char d = ''0123456789ABCDEF'' ! d"

fun digits :: "nat \<Rightarrow> string" where
  "digits n = (if n < 10 then [hex_char n] else digits (n div 10) @ [hex_char (n mod 10)])"

declare digits.simps [simp del]

text \<open>
  \<open>Number::toString\<close> on a finite value \<open>x\<close> of \<open>10^21\<close> or more, which is an integer with \<open>d\<close>
  decimal digits: the decimal with the fewest digits \<open>k\<close> that rounds to \<open>x\<close>, printed in
  exponent notation. For each \<open>k\<close> from 1 the two \<open>k\<close>-digit candidates around \<open>x\<close> are tried,
  and of two that both round to \<open>x\<close> the nearer one is taken; seventeen digits always do.
\<close>

definition candidate :: "real \<Rightarrow> nat \<Rightarrow> nat \<Rightarrow> nat option" where
  "candidate x d k =
     (let p = 10 ^ (d - k);
          lo = nat \<lfloor>x / p\<rfloor>;
          hi = lo + 1;
          vlo = (fl (real lo * p) = Finite x);
          vhi = (fl (real hi * p) = Finite x)
      in if vlo \<and> vhi
         then (if x - real lo * p < real hi * p - x
                  \<or> (x - real lo * p = real hi * p - x \<and> even lo)
               then Some lo else Some hi)
         else if vlo then Some lo
         else if vhi then Some hi
         else None)"

fun shortest :: "nat \<Rightarrow> real \<Rightarrow> nat \<Rightarrow> nat \<Rightarrow> nat \<times> nat" where
  "shortest 0 x d k = (nat \<lfloor>x / 10 ^ (d - k)\<rfloor>, k)"
| "shortest (Suc fuel) x d k =
     (case candidate x d k of
        Some s \<Rightarrow> (s, k)
      | None \<Rightarrow> shortest fuel x d (k + 1))"

definition exponent_notation :: "real \<Rightarrow> string" where
  "exponent_notation x =
     (let d = length (digits (nat \<lfloor>x\<rfloor>));
          sk = shortest 16 x d 1;
          carried = (fst sk = 10 ^ snd sk);
          ds = digits (if carried then 1 else fst sk);
          n = (if carried then d + 1 else d)
      in (if length ds = 1 then ds else hd ds # ''.'' @ tl ds) @ ''e+'' @ digits (n - 1))"

text \<open>\<open>Number::toString\<close> on a number with an integer value, an infinity or \<open>NaN\<close>.\<close>

definition Number_toString :: "number \<Rightarrow> string" where
  "Number_toString v =
     (case v of
        NaN \<Rightarrow> ''NaN''
      | PosInfinity \<Rightarrow> ''Infinity''
      | NegInfinity \<Rightarrow> ''-Infinity''
      | Finite y \<Rightarrow>
          (if y < 0 then ''-'' else '''')
            @ (if \<bar>y\<bar> < 10 ^ 21 then digits (nat \<lfloor>\<bar>y\<bar>\<rfloor>) else exponent_notation \<bar>y\<bar>))"

text \<open>
  \<open>Number.prototype.toFixed(f)\<close>, following the steps of ECMAScript: a value that is not
  finite is printed by \<open>Number::toString\<close>; the sign is split off; a magnitude of \<open>10^21\<close> or
  more is printed by \<open>Number::toString\<close>; and otherwise the integer \<open>n\<close> nearest to
  \<open>x * 10^f\<close> (the larger one on a tie) is printed with a point before its last \<open>f\<close> digits,
  padded with zeros on the left to \<open>f + 1\<close> digits.
\<close>

definition place_point :: "nat \<Rightarrow> string \<Rightarrow> string" where
  "place_point f m =
     (let m' = (if length m \<le> f then replicate (f + 1 - length m) (CHR ''0'') @ m else m);
          k = length m'
      in take (k - f) m' @ ''.'' @ drop (k - f) m')"

definition toFixed :: "nat \<Rightarrow> number \<Rightarrow> string" where
  "toFixed f v =
     (case v of
        Finite x0 \<Rightarrow>
          (let s = (if x0 < 0 then ''-'' else '''');
               x = \<bar>x0\<bar>
           in if 10 ^ 21 \<le> x then s @ exponent_notation x
              else
                let n = nat \<lfloor>x * 10 ^ f + 1 / 2\<rfloor>;
                    m = digits n
                in if f = 0 then s @ m else s @ place_point f m)
      | _ \<Rightarrow> Number_toString v)"

text \<open>
  \<open>toLocaleString()\<close> on a finite value, as ECMA-402 has it for a locale with the given
  group and decimal separators: at most three fraction digits (a tie rounding away from
  zero), no trailing zeros, the integer digits in groups of three. \<open>en-US\<close> writes \<open>1,234.5\<close>
  and \<open>de-DE\<close> writes \<open>1.234,5\<close>. These two serve as the locales of the example hosts.
\<close>

fun group_rev :: "char \<Rightarrow> string \<Rightarrow> string" where
  "group_rev g (a # b # c # d # ds) = a # b # c # g # group_rev g (d # ds)"
| "group_rev g ds = ds"

fun strip_zeros_rev :: "string \<Rightarrow> string" where
  "strip_zeros_rev [] = []"
| "strip_zeros_rev (d # ds) = (if d = CHR ''0'' then strip_zeros_rev ds else d # ds)"

definition grouped :: "char \<Rightarrow> char \<Rightarrow> real \<Rightarrow> string" where
  "grouped g p x0 =
     (let s = (if x0 < 0 then ''-'' else '''');
          n = nat \<lfloor>\<bar>x0\<bar> * 1000 + 1 / 2\<rfloor>;
          ip = digits (n div 1000);
          fd = digits (n mod 1000);
          fr = rev (strip_zeros_rev (rev (replicate (3 - length fd) (CHR ''0'') @ fd)))
      in s @ rev (group_rev g (rev ip)) @ (if fr = [] then [] else p # fr))"

definition en_US :: "real \<Rightarrow> string" where
  "en_US = grouped (CHR '','') (CHR ''.'')"


text \<open>
  \<open>parseInt(string)\<close> with no radix: leading white space and one sign are dropped, a prefix
  \<open>0x\<close> or \<open>0X\<close> selects radix 16, and the longest prefix of digits is read and rounded to a
  number; no digit at all gives \<open>NaN\<close>.
\<close>

definition isWhiteSpace :: "char \<Rightarrow> bool" where
  "isWhiteSpace ch = ((of_char ch :: nat) \<in> {9, 10, 11, 12, 13, 32, 160})"

definition digitValue :: "char \<Rightarrow> nat" where
  "digitValue ch =
     (let k = (of_char ch :: nat)
      in if 48 \<le> k \<and> k \<le> 57 then k - 48
         else if 97 \<le> k \<and> k \<le> 122 then k - 87
         else if 65 \<le> k \<and> k \<le> 90 then k - 55
         else 36)"

definition parseInt :: "string \<Rightarrow> number" where
  "parseInt inputString =
     (let S = dropWhile isWhiteSpace inputString;
          sgn = (if S \<noteq> [] \<and> hd S = CHR ''-'' then - 1 else (1::int));
          S1 = (if S \<noteq> [] \<and> (hd S = CHR ''+'' \<or> hd S = CHR ''-'') then tl S else S);
          hex = (2 \<le> length S1 \<and> (take 2 S1 = ''0x'' \<or> take 2 S1 = ''0X''));
          R = (if hex then 16 else 10);
          S2 = (if hex then drop 2 S1 else S1);
          Z = takeWhile (\<lambda>ch. digitValue ch < R) S2
      in if Z = [] then NaN
         else fl (of_int (sgn * int (foldl (\<lambda>a ch. a * R + digitValue ch) 0 Z))))"

text \<open>
  \<open>encodeURIComponent\<close>: letters, digits and \<open>- _ . ! ~ * ' ( )\<close> stay, every other code
  unit is replaced by the percent-encoded bytes of its UTF-8 form.
\<close>

definition uriUnreserved :: "char \<Rightarrow> bool" where
  "uriUnreserved ch =
     (let k = (of_char ch :: nat)
      in (48 \<le> k \<and> k \<le> 57) \<or> (97 \<le> k \<and> k \<le> 122) \<or> (65 \<le> k \<and> k \<le> 90)
         \<or> ch \<in> set ''-_.!~*'()'')"

definition pct :: "nat \<Rightarrow> string" where
  "pct b = [CHR ''%'', hex_char (b div 16), hex_char (b mod 16)]"

definition encodeChar :: "char \<Rightarrow> string" where
  "encodeChar ch =
     (let k = (of_char ch :: nat)
      in if uriUnreserved ch then [ch]
         else if k < 128 then pct k
         else pct (192 + k div 64) @ pct (128 + k mod 64))"

definition encodeURIComponent :: "string \<Rightarrow> string" where
  "encodeURIComponent s = concat (map encodeChar s)"

text \<open>\<open>v || 0\<close> on an optional number: an absent value and the number \<open>0\<close> are falsy.\<close>

definition or_zero :: "real option \<Rightarrow> real" where
  "or_zero v = (case v of None \<Rightarrow> 0 | Some x \<Rightarrow> if x = 0 then 0 else x)"


section \<open>The research page: data\<close>

text \<open>The interface \<open>FinancialData\<close> of \<open>StockResearchApp.tsx\<close>; a field marked \<open>?\<close> is an option.\<close>

record metric =
  "value" :: real
  unit :: string

record income_statement_t =
  revenues :: "metric option"
  net_income_loss :: "metric option"
  gross_profit :: "metric option"
  basic_earnings_per_share :: "metric option"

record financials_t =
  income_statement :: income_statement_t

record FinancialData =
  fiscal_year :: string
  fiscal_period :: string
  end_date :: string
  financials :: financials_t

text \<open>The payload of the financials query; \<open>results\<close> may be missing from it.\<close>

record financials_response =
  results :: "FinancialData list option"

text \<open>One bar of the previous-session payload: close \<open>c\<close> and open \<open>o\<close>.\<close>

record agg_bar =
  bar_c :: "real option"
  bar_o :: "real option"

record previous_response =
  bars :: "agg_bar list option"

record dcf_point =
  year :: string
  fcf :: number
  dcf :: number

record revenue_point =
  year :: string
  revenue :: number

record profit_point =
  year :: string
  netIncome :: number

record segment =
  name :: string
  "value" :: number
  growth :: number
  color :: string


section \<open>The research page: derived metrics\<close>

text \<open>\<open>revenues?.value\<close> and \<open>net_income_loss?.value\<close> of a period.\<close>

definition revenues_value :: "FinancialData \<Rightarrow> real option" where
  "revenues_value item = map_option metric.value (revenues (income_statement (financials item)))"

definition net_income_loss_value :: "FinancialData \<Rightarrow> real option" where
  "net_income_loss_value item =
     map_option metric.value (net_income_loss (income_statement (financials item)))"

text \<open>
  \<open>generateDCFData\<close> (lines 82 to 97). The literals \<open>1.05\<close>, \<open>0.97\<close> and \<open>0.15\<close> are the
  nearest numbers; the products are taken from left to right; \<open>i + 1\<close> is exact.
\<close>

definition generateDCFData :: "host \<Rightarrow> FinancialData list \<Rightarrow> dcf_point list" where
  "generateDCFData h fs =
     (case fs of
        [] \<Rightarrow> []
      | p # _ \<Rightarrow>
          let latestYear =
                parseInt (if fiscal_year p \<noteq> [] then fiscal_year p
                          else Number_toString (Finite (of_int (clockYear h))));
              latestRevenue = fdiv (Finite (or_zero (revenues_value p))) (Finite (10 ^ 9));
              growthRate = fl 1.05;
              discountRate = fl 0.97
          in map (\<lambda>i.
                \<lparr> dcf_point.year =
                    Number_toString (fadd (fadd latestYear (Finite (real i))) (Finite 1)),
                  fcf = Math_round
                    (fmul (fmul latestRevenue (Math_pow h growthRate (Finite (real (i + 1)))))
                       (fl 0.15)),
                  dcf = Math_round
                    (fmul (fmul (fmul latestRevenue
                                   (Math_pow h growthRate (Finite (real (i + 1)))))
                             (fl 0.15))
                       (Math_pow h discountRate (Finite (real (i + 1))))) \<rparr>)
              [0..<5])"

text \<open>\<open>generateDemoSegmentsData\<close> (lines 100 to 109).\<close>

definition generateDemoSegmentsData :: "real \<Rightarrow> segment list" where
  "generateDemoSegmentsData latestRevenue =
     (if latestRevenue = 0 then []
      else
        [ \<lparr> name = ''Products'',
            value = fdiv (Math_round (fmul (fmul (Finite latestRevenue) (fl 0.55)) (Finite 10)))
                      (Finite 10),
            growth = fl 5.2, color = ''#F59E0B'' \<rparr>,
          \<lparr> name = ''Services'',
            value = fdiv (Math_round (fmul (fmul (Finite latestRevenue) (fl 0.30)) (Finite 10)))
                      (Finite 10),
            growth = fl 8.5, color = ''#3B82F6'' \<rparr>,
          \<lparr> name = ''Other'',
            value = fdiv (Math_round (fmul (fmul (Finite latestRevenue) (fl 0.15)) (Finite 10)))
                      (Finite 10),
            growth = fl 3.1, color = ''#10B981'' \<rparr> ])"

text \<open>\<open>formatCurrency\<close> (lines 223 to 228).\<close>

definition formatCurrency :: "host \<Rightarrow> real \<Rightarrow> string" where
  "formatCurrency h v =
     (if 10 ^ 12 \<le> v then ''$'' @ toFixed 2 (fdiv (Finite v) (Finite (10 ^ 12))) @ ''T''
      else if 10 ^ 9 \<le> v then ''$'' @ toFixed 2 (fdiv (Finite v) (Finite (10 ^ 9))) @ ''B''
      else if 10 ^ 6 \<le> v then ''$'' @ toFixed 2 (fdiv (Finite v) (Finite (10 ^ 6))) @ ''M''
      else ''$'' @ localeFormat h v)"

text \<open>
  \<open>revenueChartData\<close> and \<open>profitChartData\<close> (lines 230 to 242). The optional chain gives
  \<open>undefined\<close> (\<open>None\<close>) while the query has no data or the payload has no \<open>results\<close>.
\<close>

definition revenueChartData :: "financials_response option \<Rightarrow> revenue_point list option" where
  "revenueChartData fin =
     (case fin of
        None \<Rightarrow> None
      | Some r \<Rightarrow>
          (case results r of
             None \<Rightarrow> None
           | Some items \<Rightarrow>
               Some (rev (map (\<lambda>item.
                 \<lparr> revenue_point.year = fiscal_year item,
                   revenue = fdiv (Finite (or_zero (revenues_value item))) (Finite (10 ^ 9)) \<rparr>)
                 items))))"

definition profitChartData :: "financials_response option \<Rightarrow> profit_point list option" where
  "profitChartData fin =
     (case fin of
        None \<Rightarrow> None
      | Some r \<Rightarrow>
          (case results r of
             None \<Rightarrow> None
           | Some items \<Rightarrow>
               Some (rev (map (\<lambda>item.
                 \<lparr> profit_point.year = fiscal_year item,
                   netIncome =
                     fdiv (Finite (or_zero (net_income_loss_value item))) (Finite (10 ^ 9)) \<rparr>)
                 items))))"

text \<open>
  The price figures (lines 244 to 247). \<open>previousDay?.results?.[0]\<close> is the first bar when
  there is one.
\<close>

definition first_bar :: "previous_response option \<Rightarrow> agg_bar option" where
  "first_bar previousDay =
     (case previousDay of
        None \<Rightarrow> None
      | Some r \<Rightarrow> (case bars r of None \<Rightarrow> None | Some [] \<Rightarrow> None | Some (b # _) \<Rightarrow> Some b))"

definition currentPrice :: "previous_response option \<Rightarrow> real" where
  "currentPrice previousDay =
     or_zero (case first_bar previousDay of None \<Rightarrow> None | Some b \<Rightarrow> bar_c b)"

definition previousClose :: "previous_response option \<Rightarrow> real" where
  "previousClose previousDay =
     (case (case first_bar previousDay of None \<Rightarrow> None | Some b \<Rightarrow> bar_o b) of
        None \<Rightarrow> currentPrice previousDay
      | Some x \<Rightarrow> if x = 0 then currentPrice previousDay else x)"

definition priceChange :: "previous_response option \<Rightarrow> number" where
  "priceChange previousDay =
     fsub (Finite (currentPrice previousDay)) (Finite (previousClose previousDay))"

definition priceChangePercent :: "previous_response option \<Rightarrow> string" where
  "priceChangePercent previousDay =
     (if 0 < previousClose previousDay
      then toFixed 2
             (fmul (fdiv (priceChange previousDay) (Finite (previousClose previousDay)))
                (Finite 100))
      else ''0.00'')"

text \<open>\<open>getGrowthColor\<close> (lines 266 to 272), with its repeated third test.\<close>

definition getGrowthColor :: "real \<Rightarrow> string" where
  "getGrowthColor g =
     (if 15 \<le> g then ''#10B981''
      else if 5 \<le> g then ''#3B82F6''
      else if - 5 \<le> g then ''#F59E0B''
      else if - 5 \<le> g then ''#F97316''
      else ''#EF4444'')"


section \<open>The research page: the earlier variant of the page\<close>

text \<open>
  The second text of \<open>StockResearchApp.tsx\<close> (from line 662) is a smaller page: its
  \<open>formatCurrency\<close> (lines 783 to 787) has no trillion band, and its only series
  \<open>revenueChartData\<close> (lines 789 to 795) carries both figures in dollars.
\<close>

record basic_point =
  year :: string
  revenue :: real
  netIncome :: real

definition formatCurrency_basic :: "host \<Rightarrow> real \<Rightarrow> string" where
  "formatCurrency_basic h v =
     (if 10 ^ 9 \<le> v then ''$'' @ toFixed 2 (fdiv (Finite v) (Finite (10 ^ 9))) @ ''B''
      else if 10 ^ 6 \<le> v then ''$'' @ toFixed 2 (fdiv (Finite v) (Finite (10 ^ 6))) @ ''M''
      else ''$'' @ localeFormat h v)"

definition revenueChartData_basic :: "financials_response option \<Rightarrow> basic_point list option" where
  "revenueChartData_basic fin =
     (case fin of
        None \<Rightarrow> None
      | Some r \<Rightarrow>
          (case results r of
             None \<Rightarrow> None
           | Some items \<Rightarrow>
               Some (rev (map (\<lambda>item.
                 \<lparr> basic_point.year = fiscal_year item,
                   revenue = or_zero (revenues_value item),
                   netIncome = or_zero (net_income_loss_value item) \<rparr>) items))))"


section \<open>The data proxy\<close>

text \<open>
  A handler of \<open>routes.ts\<close> reads its request, calls \<open>fetch\<close> at most once and answers with a
  status and a JSON body. The handlers close over constants only (the key, the base URL, the
  headers), so there is no store to pass along: a handler is a function of the key, the
  upstream and the request, and it returns its answer together with the list of upstream
  calls it made, in order.

  The upstream is a function from the call to what \<open>fetch\<close> does with it: the promise
  rejects with a message (a transport failure), or resolves to a response. Of the response
  the model keeps what the handlers read: \<open>ok\<close>, \<open>statusText\<close>, and what \<open>text()\<close> and \<open>json()\<close>
  resolve to, or the message they reject with (\<open>Inl\<close>). The type \<open>'j\<close> is the parsed JSON.
\<close>

record fetch_call =
  url :: string
  headers :: "(string \<times> string) list"

record 'j upstream_response =
  ok :: bool
  statusText :: string
  text_result :: "string + string"
  json_result :: "string + 'j"

datatype 'j fetch_result = Rejects string | Resolves "'j upstream_response"

type_synonym 'j upstream = "fetch_call \<Rightarrow> 'j fetch_result"

datatype 'j reply_body = ErrorBody string | DataBody 'j

record 'j reply =
  status :: nat
  json :: "'j reply_body"

definition POLYGON_BASE_URL :: string where
  "POLYGON_BASE_URL = ''https://api.polygon.io''"

text \<open>\<open>res.status(400).json({ error: msg })\<close> and the \<open>catch\<close> block of every handler.\<close>

definition bad_request :: "string \<Rightarrow> 'j reply" where
  "bad_request msg = \<lparr> status = 400, json = ErrorBody msg \<rparr>"

definition server_error :: "string \<Rightarrow> 'j reply" where
  "server_error msg = \<lparr> status = 500, json = ErrorBody msg \<rparr>"

text \<open>
  What every handler does once \<open>await fetch(...)\<close> or \<open>await polygonFetch(...)\<close> is over: an
  exception (\<open>Inl\<close>, the message of the error) goes to the \<open>catch\<close> block, a response that
  is not \<open>ok\<close> throws, and otherwise the parsed body is relayed with status 200.
\<close>

definition relay :: "string + 'j upstream_response \<Rightarrow> 'j reply" where
  "relay r =
     (case r of
        Inl msg \<Rightarrow> server_error msg
      | Inr response \<Rightarrow>
          if \<not> ok response then server_error (''Polygon API error: '' @ statusText response)
          else (case json_result response of
                  Inl msg \<Rightarrow> server_error msg
                | Inr data \<Rightarrow> \<lparr> status = 200, json = DataBody data \<rparr>))"

text \<open>The first text of \<open>routes.ts\<close> (lines 1 to 131): \<open>fetch(url)\<close> with the key in the URL.\<close>

definition fetch_url :: "'j upstream \<Rightarrow> string \<Rightarrow> (string + 'j upstream_response) \<times> fetch_call list" where
  "fetch_url fetch u =
     (let call = \<lparr> url = u, headers = [] \<rparr>
      in ((case fetch call of Rejects msg \<Rightarrow> Inl msg | Resolves response \<Rightarrow> Inr response),
          [call]))"

text \<open>
  The second text of \<open>routes.ts\<close> (lines 132 to 277): \<open>polygonFetch\<close> sends the key in two
  headers, and on a response that is not \<open>ok\<close> it reads the body, drops it and throws.
\<close>

definition authHeaders :: "string \<Rightarrow> (string \<times> string) list" where
  "authHeaders key = [(''Authorization'', ''Bearer '' @ key), (''X-Polygon-API-Key'', key)]"

definition polygonFetch ::
  "string \<Rightarrow> 'j upstream \<Rightarrow> string \<Rightarrow> (string + 'j upstream_response) \<times> fetch_call list" where
  "polygonFetch key fetch pathWithQuery =
     (let call = \<lparr> url = POLYGON_BASE_URL @ pathWithQuery, headers = authHeaders key \<rparr>
      in ((case fetch call of
             Rejects msg \<Rightarrow> Inl msg
           | Resolves response \<Rightarrow>
               if \<not> ok response
               then (case text_result response of
                       Inl msg \<Rightarrow> Inl msg
                     | Inr body \<Rightarrow> Inl (''Polygon API error: '' @ statusText response))
               else Inr response),
          [call]))"

text \<open>
  The two ways of reaching the provider. A handler gets the path and query it built, and the
  piece that the first text appends for the key (\<open>&apiKey=\<close> or \<open>?apiKey=\<close>).
\<close>

datatype variant = KeyInUrl | KeyInHeaders

definition provider ::
  "variant \<Rightarrow> string \<Rightarrow> 'j upstream \<Rightarrow> string \<Rightarrow> string
     \<Rightarrow> (string + 'j upstream_response) \<times> fetch_call list" where
  "provider var key fetch pathWithQuery sep =
     (case var of
        KeyInUrl \<Rightarrow> fetch_url fetch (POLYGON_BASE_URL @ pathWithQuery @ sep @ ''apiKey='' @ key)
      | KeyInHeaders \<Rightarrow> polygonFetch key fetch pathWithQuery)"

definition answer :: "(string + 'j upstream_response) \<times> fetch_call list \<Rightarrow> 'j reply \<times> fetch_call list" where
  "answer r = (relay (fst r), snd r)"

text \<open>
  A query parameter is taken as the handlers cast it: absent (\<open>None\<close>) or a string. \<open>!v\<close> holds for an absent and
  for an empty one; \<open>v || d\<close> replaces both by \<open>d\<close>; a destructuring default replaces the
  absent one only.
\<close>

definition falsy :: "string option \<Rightarrow> bool" where
  "falsy v = (v = None \<or> v = Some [])"

definition or_default :: "string option \<Rightarrow> string \<Rightarrow> string" where
  "or_default v d = (case v of None \<Rightarrow> d | Some s \<Rightarrow> if s = [] then d else s)"

definition default_to :: "string option \<Rightarrow> string \<Rightarrow> string" where
  "default_to v d = (case v of None \<Rightarrow> d | Some s \<Rightarrow> s)"

text \<open>\<open>GET /api/stocks/search\<close>\<close>

definition get_search ::
  "variant \<Rightarrow> string \<Rightarrow> 'j upstream \<Rightarrow> string option \<Rightarrow> 'j reply \<times> fetch_call list" where
  "get_search var key fetch q =
     (if falsy q then (bad_request ''Query parameter 'q' is required'', [])
      else answer (provider var key fetch
             (''/v3/reference/tickers?search='' @ encodeURIComponent (the q)
                @ ''&active=true&limit=10'') ''&''))"

text \<open>\<open>GET /api/stocks/:ticker/details\<close>\<close>

definition get_details ::
  "variant \<Rightarrow> string \<Rightarrow> 'j upstream \<Rightarrow> string \<Rightarrow> 'j reply \<times> fetch_call list" where
  "get_details var key fetch ticker =
     answer (provider var key fetch
       (''/v3/reference/tickers/'' @ encodeURIComponent ticker) ''?'')"

text \<open>\<open>GET /api/stocks/:ticker/financials/income\<close>\<close>

definition get_income ::
  "variant \<Rightarrow> string \<Rightarrow> 'j upstream \<Rightarrow> string \<Rightarrow> string option \<Rightarrow> string option
     \<Rightarrow> 'j reply \<times> fetch_call list" where
  "get_income var key fetch ticker timeframe limit =
     answer (provider var key fetch
       (''/vX/reference/financials?ticker='' @ encodeURIComponent ticker
          @ ''&timeframe='' @ or_default timeframe ''annual''
          @ ''&limit='' @ or_default limit ''5'') ''&'')"

text \<open>\<open>GET /api/stocks/:ticker/aggregates\<close>\<close>

definition get_aggregates ::
  "variant \<Rightarrow> string \<Rightarrow> 'j upstream \<Rightarrow> string \<Rightarrow> string option \<Rightarrow> string option
     \<Rightarrow> string option \<Rightarrow> string option \<Rightarrow> 'j reply \<times> fetch_call list" where
  "get_aggregates var key fetch ticker from to timespan multiplier =
     (if falsy from \<or> falsy to
      then (bad_request ''from and to date parameters are required (YYYY-MM-DD)'', [])
      else answer (provider var key fetch
             (''/v2/aggs/ticker/'' @ encodeURIComponent ticker
                @ ''/range/'' @ default_to multiplier ''1''
                @ ''/'' @ default_to timespan ''day''
                @ ''/'' @ the from @ ''/'' @ the to @ ''?adjusted=true&sort=asc'') ''&''))"

text \<open>\<open>GET /api/stocks/:ticker/previous\<close>\<close>

definition get_previous ::
  "variant \<Rightarrow> string \<Rightarrow> 'j upstream \<Rightarrow> string \<Rightarrow> 'j reply \<times> fetch_call list" where
  "get_previous var key fetch ticker =
     answer (provider var key fetch
       (''/v2/aggs/ticker/'' @ encodeURIComponent ticker @ ''/prev?adjusted=true'') ''&'')"

text \<open>The five operations as one request type, and the router.\<close>

datatype request =
    Search "string option"
  | Details string
  | Income string "string option" "string option"
  | Aggregates string "string option" "string option" "string option" "string option"
  | Previous string

fun handle :: "variant \<Rightarrow> string \<Rightarrow> 'j upstream \<Rightarrow> request \<Rightarrow> 'j reply \<times> fetch_call list" where
  "handle var key fetch (Search q) = get_search var key fetch q"
| "handle var key fetch (Details ticker) = get_details var key fetch ticker"
| "handle var key fetch (Income ticker timeframe limit) =
     get_income var key fetch ticker timeframe limit"
| "handle var key fetch (Aggregates ticker from to timespan multiplier) =
     get_aggregates var key fetch ticker from to timespan multiplier"
| "handle var key fetch (Previous ticker) = get_previous var key fetch ticker"

text \<open>The requests that pass the parameter checks of their handler.\<close>

fun accepted :: "request \<Rightarrow> bool" where
  "accepted (Search q) = (\<not> falsy q)"
| "accepted (Aggregates ticker from to timespan multiplier) = (\<not> falsy from \<and> \<not> falsy to)"
| "accepted _ = True"


section \<open>Inputs for the examples\<close>

text \<open>
  A \<open>Math.pow\<close> that is correctly rounded on a finite base and a natural exponent, the only
  arguments the page passes.
\<close>

fun pow_rounded :: "number \<Rightarrow> number \<Rightarrow> number" where
  "pow_rounded (Finite b) (Finite n) = fl (b ^ nat \<lfloor>n\<rfloor>)"
| "pow_rounded _ _ = NaN"

text \<open>
  A host in the year 2025 with the \<open>en-US\<close> locale and that \<open>Math.pow\<close>; the same host one
  year later; and the same host with the \<open>de-DE\<close> locale.
\<close>

definition example_host :: host where
  "example_host = \<lparr> clockYear = 2025, localeFormat = en_US, Math_pow = pow_rounded \<rparr>"



text \<open>A period of fiscal year 2024 with revenue of 100 billion and net income of 25 billion.\<close>

definition period_2024 :: FinancialData where
  "period_2024 =
     \<lparr> fiscal_year = ''2024'', fiscal_period = ''FY'', end_date = ''2024-12-31'',
       financials = \<lparr> income_statement =
         \<lparr> revenues = Some \<lparr> metric.value = 100000000000, unit = ''USD'' \<rparr>,
           net_income_loss = Some \<lparr> metric.value = 25000000000, unit = ''USD'' \<rparr>,
           gross_profit = None,
           basic_earnings_per_share = None \<rparr> \<rparr> \<rparr>"


definition period_bare :: FinancialData where
  "period_bare =
     \<lparr> fiscal_year = ''2023'', fiscal_period = ''FY'', end_date = ''2023-12-31'',
       financials = \<lparr> income_statement =
         \<lparr> revenues = None, net_income_loss = None, gross_profit = None,
           basic_earnings_per_share = None \<rparr> \<rparr> \<rparr>"

text \<open>
  Two periods at which rounding in binary64 decides the result: a revenue whose first
  discounted value lies on a tie, and a fiscal year of \<open>2^53\<close>.
\<close>

definition period_tie :: FinancialData where
  "period_tie =
     period_2024 \<lparr> financials := \<lparr> income_statement =
       \<lparr> revenues = Some \<lparr> metric.value = 13631156930126, unit = ''USD'' \<rparr>,
         net_income_loss = None, gross_profit = None,
         basic_earnings_per_share = None \<rparr> \<rparr> \<rparr>"


text \<open>A previous-session payload with the one bar given.\<close>

definition snapshot :: "agg_bar \<Rightarrow> previous_response option" where
  "snapshot b = Some \<lparr> bars = Some [b] \<rparr>"

text \<open>
  Bars: one with no open price, one with both prices zero, one with a zero open, one that
  closed ten percent above its open, one whose percent change is rounded twice on the way
  to the string, and one whose percent change is \<open>10^21\<close>.
\<close>

definition bar_no_open :: agg_bar where
  "bar_no_open = \<lparr> bar_c = Some 10, bar_o = None \<rparr>"

definition bar_flat_zero :: agg_bar where
  "bar_flat_zero = \<lparr> bar_c = Some 0, bar_o = Some 0 \<rparr>"

definition bar_open_zero :: agg_bar where
  "bar_open_zero = \<lparr> bar_c = Some 10, bar_o = Some 0 \<rparr>"

definition bar_up :: agg_bar where
  "bar_up = \<lparr> bar_c = Some 110, bar_o = Some 100 \<rparr>"

definition bar_fraction :: agg_bar where
  "bar_fraction = \<lparr> bar_c = Some 2.859375, bar_o = Some 2.5 \<rparr>"

definition bar_huge :: agg_bar where
  "bar_huge = \<lparr> bar_c = Some (10 ^ 19), bar_o = Some 1 \<rparr>"

text \<open>The number that the literal \<open>1e33\<close> denotes.\<close>

definition decillion :: real where
  "decillion = 999999999999999945575230987042816"

text \<open>
  A key, and four upstreams with parsed JSON of type \<open>nat\<close>: one that answers every call
  with 200, one that answers every call with 403 and a body, one that answers with 403 and
  a body that cannot be read, and one that cannot be reached.
\<close>

definition example_key :: string where
  "example_key = ''k3y''"

definition upstream_ok :: "nat upstream" where
  "upstream_ok = (\<lambda>call. Resolves
     \<lparr> ok = True, statusText = ''OK'', text_result = Inr ''[]'',
       json_result = Inr 1 \<rparr>)"

definition upstream_forbidden :: "nat upstream" where
  "upstream_forbidden = (\<lambda>call. Resolves
     \<lparr> ok = False, statusText = ''Forbidden'', text_result = Inr ''upgrade your plan'',
       json_result = Inr 2 \<rparr>)"

definition upstream_unreadable :: "nat upstream" where
  "upstream_unreadable = (\<lambda>call. Resolves
     \<lparr> ok = False, statusText = ''Forbidden'', text_result = Inl ''body unreadable'',
       json_result = Inl ''body unreadable'' \<rparr>)"

definition upstream_down :: "nat upstream" where
  "upstream_down = (\<lambda>call. Rejects ''fetch failed'')"


section \<open>Notions used in the statements\<close>

text \<open>
  The spec's rendering of a non-negative number with two decimals: the nearest hundredth
  (a tie going up), printed as the integer part, a point and two digits.
\<close>

definition two_decimals :: "real \<Rightarrow> string" where
  "two_decimals x =
     (let n = nat \<lfloor>x * 100 + 1 / 2\<rfloor>
      in digits (n div 100) @ ''.'' @ [hex_char (n div 10 mod 10), hex_char (n mod 10)])"


section \<open>Rounding to binary64\<close>

lemma rne_of_int: "rne (of_int n) = n"
  by (simp add: rne_def)

lemma rne_bounds: "\<lfloor>y\<rfloor> \<le> rne y \<and> rne y \<le> \<lfloor>y\<rfloor> + 1"
  by (simp add: rne_def Let_def)

lemma rne_le: "y \<le> of_int N \<Longrightarrow> rne y \<le> N"
proof -
  assume a: "y \<le> of_int N"
  show ?thesis
  proof (cases "y = of_int N")
    case True
    then show ?thesis by (simp add: rne_of_int)
  next
    case False
    with a have "y < of_int N" by simp
    then have "\<lfloor>y\<rfloor> < N" by (simp add: floor_less_iff)
    with rne_bounds [of y] show ?thesis by linarith
  qed
qed

lemma rne_ge: "of_int N \<le> y \<Longrightarrow> N \<le> rne y"
proof -
  assume "of_int N \<le> y"
  then have "N \<le> \<lfloor>y\<rfloor>" by (simp add: le_floor_iff)
  with rne_bounds [of y] show ?thesis by linarith
qed

lemma rne_near: "\<bar>y - of_int m\<bar> < 1 / 2 \<Longrightarrow> rne y = m"
proof -
  assume a: "\<bar>y - of_int m\<bar> < 1 / 2"
  show ?thesis
  proof (cases "of_int m \<le> y")
    case True
    with a have f: "\<lfloor>y\<rfloor> = m" by (intro floor_unique) linarith+
    with a True show ?thesis by (simp add: rne_def Let_def)
  next
    case False
    with a have f: "\<lfloor>y\<rfloor> = m - 1" by (intro floor_unique) (simp, linarith)+
    with a False show ?thesis by (simp add: rne_def Let_def)
  qed
qed

lemma rne_tie_down: "y = of_int m + 1 / 2 \<Longrightarrow> even m \<Longrightarrow> rne y = m"
proof -
  assume a: "y = of_int m + 1 / 2" and e: "even m"
  from a have f: "\<lfloor>y\<rfloor> = m" by (intro floor_unique) simp_all
  with a e show ?thesis by (simp add: rne_def Let_def)
qed

lemma rne_tie_up: "y = of_int m - 1 / 2 \<Longrightarrow> even m \<Longrightarrow> rne y = m"
proof -
  assume a: "y = of_int m - 1 / 2" and e: "even m"
  from a have f: "\<lfloor>y\<rfloor> = m - 1" by (intro floor_unique) simp_all
  with a e show ?thesis by (simp add: rne_def Let_def)
qed

lemma binade_eq:
  "0 < x \<Longrightarrow> 2 powi e \<le> x \<Longrightarrow> x < 2 powi (e + 1) \<Longrightarrow> \<bar>e\<bar> \<le> int k \<Longrightarrow> binade k x = e"
proof (induction k arbitrary: x e)
  case 0
  then show ?case by simp
next
  case (Suc k)
  show ?case
  proof (cases "2 \<le> x")
    case True
    have "1 \<le> e"
    proof (rule ccontr)
      assume "\<not> 1 \<le> e"
      then have "e + 1 \<le> 1" by simp
      then have "(2::real) powi (e + 1) \<le> 2 powi 1"
        by (intro power_int_increasing) simp_all
      with Suc.prems True show False by simp
    qed
    have lo: "2 powi (e - 1) \<le> x / 2"
      using Suc.prems(2) by (simp add: power_int_diff)
    have hi: "x / 2 < 2 powi (e - 1 + 1)"
      using Suc.prems(3) by (simp add: power_int_add)
    have "binade k (x / 2) = e - 1"
      using Suc.prems(1,4) \<open>1 \<le> e\<close> by (intro Suc.IH lo hi) simp_all
    with True show ?thesis by simp
  next
    case False
    show ?thesis
    proof (cases "x < 1")
      case True
      have "e \<le> - 1"
      proof (rule ccontr)
        assume "\<not> e \<le> - 1"
        then have "0 \<le> e" by simp
        then have "(2::real) powi 0 \<le> 2 powi e"
          by (intro power_int_increasing) simp_all
        with Suc.prems True show False by simp
      qed
      have lo: "2 powi (e + 1) \<le> x * 2"
        using Suc.prems(2) by (simp add: power_int_add)
      have hi: "x * 2 < 2 powi (e + 1 + 1)"
        using Suc.prems(3) by (simp add: power_int_add)
      have "binade k (x * 2) = e + 1"
        using Suc.prems(1,4) \<open>e \<le> - 1\<close> by (intro Suc.IH lo hi) simp_all
      with True False show ?thesis by simp
    next
      case nl: False
      have "0 \<le> e"
      proof (rule ccontr)
        assume "\<not> 0 \<le> e"
        then have "e + 1 \<le> 0" by simp
        then have "(2::real) powi (e + 1) \<le> 2 powi 0"
          by (intro power_int_increasing) simp_all
        with Suc.prems nl show False by simp
      qed
      moreover have "e \<le> 0"
      proof (rule ccontr)
        assume "\<not> e \<le> 0"
        then have "1 \<le> e" by simp
        then have "(2::real) powi 1 \<le> 2 powi e"
          by (intro power_int_increasing) simp_all
        with Suc.prems False show False by simp
      qed
      ultimately show ?thesis using False nl by simp
    qed
  qed
qed

lemma binade_exists: "0 < (x::real) \<Longrightarrow> \<exists>e. 2 powi e \<le> x \<and> x < 2 powi (e + 1)"
proof -
  assume x: "0 < x"
  define e where "e = \<lfloor>log 2 x\<rfloor>"
  have "2 powr of_int e \<le> x \<and> x < 2 powr of_int (e + 1)"
    using floor_log_eq_powr_iff [of x 2 e] x by (simp add: e_def)
  then have "2 powi e \<le> x \<and> x < 2 powi (e + 1)"
    by (simp only: powr_real_of_int' [of 2, simplified])
  then show ?thesis by blast
qed

lemma fl_normal:
  assumes "2 powi e \<le> \<bar>x\<bar>" and "\<bar>x\<bar> < 2 powi (e + 1)" and "- 1022 \<le> e" and "e \<le> 1022"
  shows "fl x = Finite (of_int (rne (x / 2 powi (e - 52))) * 2 powi (e - 52))"
proof -
  have "(0::real) < 2 powi e" by simp
  with assms(1) have pos: "0 < \<bar>x\<bar>" by linarith
  have b: "binade 2200 \<bar>x\<bar> = e"
    using assms by (intro binade_eq pos) simp_all
  define q :: real where "q = 2 powi (e - 52)"
  have q: "0 < q" by (simp add: q_def)
  have "\<bar>x\<bar> / q < 2 powi (e + 1) / q"
    using assms(2) q by (simp add: divide_strict_right_mono)
  also have "2 powi (e + 1) / q = 2 ^ 53"
    by (simp add: q_def flip: power_int_diff)
  finally have lt: "\<bar>x\<bar> / q < 2 ^ 53" .
  have "x \<le> \<bar>x\<bar>" and "- \<bar>x\<bar> \<le> x" by simp_all
  then have "x / q \<le> \<bar>x\<bar> / q" and "(- \<bar>x\<bar>) / q \<le> x / q"
    using q by (simp_all only: divide_right_mono less_imp_le)
  then have "x / q \<le> \<bar>x\<bar> / q" and "- (\<bar>x\<bar> / q) \<le> x / q"
    by simp_all
  with lt have "x / q \<le> of_int (2 ^ 53)" and "of_int (- (2 ^ 53)) \<le> x / q"
    by simp_all
  then have r1: "rne (x / q) \<le> 2 ^ 53" and r2: "- (2 ^ 53) \<le> rne (x / q)"
    using rne_le [of "x / q" "2 ^ 53"] rne_ge [of "- (2 ^ 53)" "x / q"] by simp_all
  have "2 ^ 53 * q = 2 powi (e + 1)"
    by (simp add: q_def power_int_diff power_int_add)
  also have "\<dots> \<le> 2 powi 1023"
    using assms(4) by (intro power_int_increasing) simp_all
  finally have top: "2 ^ 53 * q \<le> 2 ^ 1023" by simp
  have "(2::real) ^ 1023 < 2 ^ 1024" by simp
  with top have top': "2 ^ 53 * q < 2 ^ 1024" by linarith
  have "of_int (rne (x / q)) \<le> (2 ^ 53 :: real)"
    using r1 by (metis of_int_le_iff of_int_numeral of_int_power)
  then have "of_int (rne (x / q)) * q \<le> 2 ^ 53 * q"
    using q by (intro mult_right_mono) simp_all
  with top' have u: "of_int (rne (x / q)) * q < 2 ^ 1024" by linarith
  have "- (2 ^ 53 :: real) \<le> of_int (rne (x / q))"
    using r2 by (metis of_int_le_iff of_int_minus of_int_numeral of_int_power)
  then have "- (2 ^ 53) * q \<le> of_int (rne (x / q)) * q"
    using q by (intro mult_right_mono) simp_all
  with top' have l: "- (2 ^ 1024) < of_int (rne (x / q)) * q" by linarith
  from u l show ?thesis
    using assms(3) by (simp add: fl_def b q_def Let_def)
qed

lemma fl_0: "fl 0 = Finite 0"
  by (simp add: fl_def rne_def)

lemma fl_of_int:
  assumes "\<bar>k\<bar> \<le> 2 ^ 53"
  shows "fl (of_int k) = Finite (of_int k)"
proof (cases "k = 0")
  case True
  then show ?thesis by (simp add: fl_0)
next
  case False
  then have "1 \<le> \<bar>k\<bar>" by simp
  then have one: "1 \<le> \<bar>real_of_int k\<bar>"
    by (metis of_int_1_le_iff of_int_abs)
  then have "0 < \<bar>real_of_int k\<bar>" by linarith
  then obtain e where e: "2 powi e \<le> \<bar>real_of_int k\<bar>" "\<bar>real_of_int k\<bar> < 2 powi (e + 1)"
    using binade_exists by blast
  have up: "\<bar>real_of_int k\<bar> \<le> 2 ^ 53"
    using assms by (metis of_int_abs of_int_le_iff of_int_numeral of_int_power)
  have e0: "0 \<le> e"
  proof (rule ccontr)
    assume "\<not> 0 \<le> e"
    then have "e + 1 \<le> 0" by simp
    then have "(2::real) powi (e + 1) \<le> 2 powi 0"
      by (intro power_int_increasing) simp_all
    with e(2) one show False by simp
  qed
  have e53: "e \<le> 53"
  proof (rule ccontr)
    assume "\<not> e \<le> 53"
    then have "54 \<le> e" by simp
    then have "(2::real) powi 54 \<le> 2 powi e"
      by (intro power_int_increasing) simp_all
    with e(1) up show False by simp
  qed
  have n: "fl (of_int k) =
      Finite (of_int (rne (of_int k / 2 powi (e - 52))) * 2 powi (e - 52))"
    using e e0 e53 by (intro fl_normal) simp_all
  show ?thesis
  proof (cases "e \<le> 52")
    case True
    define m where "m = nat (52 - e)"
    have q: "(2::real) powi (e - 52) = 1 / 2 ^ m"
      using True by (simp add: m_def power_int_def inverse_eq_divide power_divide)
    have "real_of_int k / 2 powi (e - 52) = of_int (k * 2 ^ m)"
      by (simp add: q)
    then have "rne (real_of_int k / 2 powi (e - 52)) = k * 2 ^ m"
      by (simp only: rne_of_int)
    then have "fl (of_int k) = Finite (of_int (k * 2 ^ m) * 2 powi (e - 52))"
      by (simp only: n)
    also have "of_int (k * 2 ^ m) * 2 powi (e - 52) = real_of_int k"
      by (simp add: q)
    finally show ?thesis .
  next
    case False
    with e53 have e': "e = 53" by simp
    from e(1) up have eq: "\<bar>real_of_int k\<bar> = 2 ^ 53"
      by (simp add: e')
    then have "\<bar>k\<bar> = 2 ^ 53"
      by (metis of_int_abs of_int_eq_iff of_int_numeral of_int_power)
    then have "k = 2 ^ 53 \<or> k = - (2 ^ 53)" by linarith
    then show ?thesis
    proof
      assume k: "k = 2 ^ 53"
      have "real_of_int k / 2 powi (e - 52) = of_int (2 ^ 52)"
        by (simp add: k e')
      then have "rne (real_of_int k / 2 powi (e - 52)) = 2 ^ 52"
        by (simp only: rne_of_int)
      then have "fl (of_int k) = Finite (of_int (2 ^ 52) * 2 powi (e - 52))"
        by (simp only: n)
      also have "of_int (2 ^ 52) * 2 powi (e - 52) = real_of_int k"
        by (simp add: k e')
      finally show ?thesis .
    next
      assume k: "k = - (2 ^ 53)"
      have "real_of_int k / 2 powi (e - 52) = of_int (- (2 ^ 52))"
        by (simp add: k e')
      then have "rne (real_of_int k / 2 powi (e - 52)) = - (2 ^ 52)"
        by (simp only: rne_of_int)
      then have "fl (of_int k) = Finite (of_int (- (2 ^ 52)) * 2 powi (e - 52))"
        by (simp only: n)
      also have "of_int (- (2 ^ 52)) * 2 powi (e - 52) = real_of_int k"
        by (simp add: k e')
      finally show ?thesis .
    qed
  qed
qed

lemma fl_numeral:
  assumes "(numeral k :: int) \<le> 2 ^ 53"
  shows "fl (numeral k) = Finite (numeral k)"
  using fl_of_int [of "numeral k"] assms by simp

lemma fl_range:
  assumes "2 powi a \<le> x" and "x \<le> 2 powi b" and "- 1022 \<le> a" and "b \<le> 1022"
  shows "\<exists>r. fl x = Finite r \<and> 2 powi a \<le> r \<and> r \<le> 2 powi b"
proof -
  have "(0::real) < 2 powi a" by simp
  with assms(1) have x: "0 < x" by linarith
  then obtain e where e: "2 powi e \<le> x" "x < 2 powi (e + 1)"
    using binade_exists by blast
  have ae: "a \<le> e"
  proof (rule ccontr)
    assume "\<not> a \<le> e"
    then have "e + 1 \<le> a" by simp
    then have "(2::real) powi (e + 1) \<le> 2 powi a"
      by (intro power_int_increasing) simp_all
    with e(2) assms(1) show False by simp
  qed
  have eb: "e \<le> b"
  proof (rule ccontr)
    assume "\<not> e \<le> b"
    then have "b + 1 \<le> e" by simp
    then have "(2::real) powi (b + 1) \<le> 2 powi e"
      by (intro power_int_increasing) simp_all
    moreover have "(2::real) powi b < 2 powi (b + 1)"
      by (intro power_int_strict_increasing) simp_all
    ultimately show False using e(1) assms(2) by simp
  qed
  define q :: real where "q = 2 powi (e - 52)"
  have q: "0 < q" by (simp add: q_def)
  have n: "fl x = Finite (of_int (rne (x / q)) * q)"
    unfolding q_def using e x ae eb assms(3,4) by (intro fl_normal) simp_all
  have qe: "2 ^ 52 * q = 2 powi e"
    by (simp add: q_def power_int_diff)
  have "of_int (2 ^ 52) \<le> x / q"
    using e(1) q qe by (simp add: pos_le_divide_eq)
  then have "2 ^ 52 \<le> rne (x / q)" by (rule rne_ge)
  then have "(2 ^ 52 :: real) \<le> of_int (rne (x / q))"
    by (metis of_int_le_iff of_int_numeral of_int_power)
  then have "2 ^ 52 * q \<le> of_int (rne (x / q)) * q"
    using q by (intro mult_right_mono) simp_all
  then have "2 powi e \<le> of_int (rne (x / q)) * q"
    by (simp only: qe)
  moreover have "(2::real) powi a \<le> 2 powi e"
    using ae by (intro power_int_increasing) simp_all
  ultimately have lower: "2 powi a \<le> of_int (rne (x / q)) * q" by linarith
  have upper: "of_int (rne (x / q)) * q \<le> 2 powi b"
  proof (cases "e = b")
    case True
    with e(1) assms(2) have "x = 2 powi e" by simp
    then have "x / q = of_int (2 ^ 52)"
      using q qe by (simp add: field_simps)
    then have "rne (x / q) = 2 ^ 52" by (simp only: rne_of_int)
    then show ?thesis using qe True by simp
  next
    case False
    with eb have "e + 1 \<le> b" by simp
    then have le: "(2::real) powi (e + 1) \<le> 2 powi b"
      by (intro power_int_increasing) simp_all
    have qe1: "2 ^ 53 * q = 2 powi (e + 1)"
      by (simp add: q_def power_int_diff power_int_add)
    have "x / q \<le> of_int (2 ^ 53)"
      using e(2) q qe1 by (simp add: pos_divide_le_eq)
    then have "rne (x / q) \<le> 2 ^ 53" by (rule rne_le)
    then have "of_int (rne (x / q)) \<le> (2 ^ 53 :: real)"
      by (metis of_int_le_iff of_int_numeral of_int_power)
    then have "of_int (rne (x / q)) * q \<le> 2 ^ 53 * q"
      using q by (intro mult_right_mono) simp_all
    with qe1 le show ?thesis by linarith
  qed
  from n lower upper show ?thesis by blast
qed

lemma fl_upto:
  assumes "2 powi e \<le> x" and "x \<le> of_int M * 2 powi (e - 52)" and "M < 2 ^ 53"
    and "- 1022 \<le> e" and "e \<le> 1022"
  shows "\<exists>r. fl x = Finite r \<and> 2 powi e \<le> r \<and> r \<le> of_int M * 2 powi (e - 52)"
proof -
  define q :: real where "q = 2 powi (e - 52)"
  have q: "0 < q" by (simp add: q_def)
  have qe: "2 ^ 52 * q = 2 powi e"
    by (simp add: q_def power_int_diff)
  have qe1: "2 ^ 53 * q = 2 powi (e + 1)"
    by (simp add: q_def power_int_diff power_int_add)
  have "(0::real) < 2 powi e" by simp
  with assms(1) have x: "0 < x" by linarith
  have "of_int M < (2 ^ 53 :: real)"
    using assms(3) by (metis of_int_less_iff of_int_numeral of_int_power)
  then have "of_int M * q < 2 ^ 53 * q"
    using q by (intro mult_strict_right_mono) simp_all
  then have "of_int M * q < 2 powi (e + 1)"
    by (simp only: qe1)
  with assms(2) have lt: "x < 2 powi (e + 1)"
    unfolding q_def by linarith
  have n: "fl x = Finite (of_int (rne (x / q)) * q)"
    unfolding q_def using assms(1,4,5) x lt by (intro fl_normal) simp_all
  have "of_int (2 ^ 52) \<le> x / q"
    using assms(1) q qe by (simp add: pos_le_divide_eq)
  then have "2 ^ 52 \<le> rne (x / q)" by (rule rne_ge)
  then have "(2 ^ 52 :: real) \<le> of_int (rne (x / q))"
    by (metis of_int_le_iff of_int_numeral of_int_power)
  then have "2 ^ 52 * q \<le> of_int (rne (x / q)) * q"
    using q by (intro mult_right_mono) simp_all
  then have lower: "2 powi e \<le> of_int (rne (x / q)) * q"
    by (simp only: qe)
  have "x / q \<le> of_int M"
    using assms(2) q by (simp add: pos_divide_le_eq q_def)
  then have "rne (x / q) \<le> M" by (rule rne_le)
  then have "real_of_int (rne (x / q)) \<le> of_int M" by simp
  then have upper: "of_int (rne (x / q)) * q \<le> of_int M * q"
    using q by (intro mult_right_mono) simp_all
  from n lower upper show ?thesis
    by (simp add: q_def)
qed

lemma fl_near:
  assumes "2 powi e \<le> \<bar>x\<bar>" and "\<bar>x\<bar> < 2 powi (e + 1)" and "- 1022 \<le> e" and "e \<le> 1022"
    and "\<bar>x / 2 powi (e - 52) - of_int m\<bar> < 1 / 2"
  shows "fl x = Finite (of_int m * 2 powi (e - 52))"
  using fl_normal [OF assms(1-4)] rne_near [OF assms(5)] by simp

lemma fl_tie_down:
  assumes "2 powi e \<le> \<bar>x\<bar>" and "\<bar>x\<bar> < 2 powi (e + 1)" and "- 1022 \<le> e" and "e \<le> 1022"
    and "x / 2 powi (e - 52) = of_int m + 1 / 2" and "even m"
  shows "fl x = Finite (of_int m * 2 powi (e - 52))"
  using fl_normal [OF assms(1-4)] rne_tie_down [OF assms(5,6)] by simp

lemma fl_tie_up:
  assumes "2 powi e \<le> \<bar>x\<bar>" and "\<bar>x\<bar> < 2 powi (e + 1)" and "- 1022 \<le> e" and "e \<le> 1022"
    and "x / 2 powi (e - 52) = of_int m - 1 / 2" and "even m"
  shows "fl x = Finite (of_int m * 2 powi (e - 52))"
  using fl_normal [OF assms(1-4)] rne_tie_up [OF assms(5,6)] by simp


section \<open>The literals of the program\<close>

text \<open>
  The numbers that the literals 1.05, 0.97, 0.15, 0.55, 0.30, 5.2, 8.5 and 3.1 of the page denote
  (the literals are written as fractions in lowest terms), and the number of \<open>1e33\<close>.
\<close>

lemma fl_1_05: "fl (21 / 20) = Finite (4728779608739021 / 4503599627370496)"
  using fl_near [where x = "21 / 20" and e = "0" and m = "4728779608739021"]
  by simp

lemma fl_0_97: "fl (97 / 100) = Finite (4368491638549381 / 4503599627370496)"
  using fl_near [where x = "97 / 100" and e = "- 1" and m = "8736983277098762"]
  by simp

lemma fl_0_15: "fl (3 / 20) = Finite (5404319552844595 / 36028797018963968)"
  using fl_near [where x = "3 / 20" and e = "- 3" and m = "5404319552844595"]
  by simp

lemma fl_0_55: "fl (11 / 20) = Finite (2476979795053773 / 4503599627370496)"
  using fl_near [where x = "11 / 20" and e = "- 1" and m = "4953959590107546"]
  by simp

lemma fl_0_30: "fl (3 / 10) = Finite (5404319552844595 / 18014398509481984)"
  using fl_near [where x = "3 / 10" and e = "- 2" and m = "5404319552844595"]
  by simp




lemma fl_1e33: "fl (1000000000000000000000000000000000) = Finite 999999999999999945575230987042816"
  using fl_near [where x = "1000000000000000000000000000000000" and e = "109" and m = "6938893903907228"]
  by simp

lemma decillion_is_1e33: "fl (10 ^ 33) = Finite decillion"
  by (simp add: decillion_def fl_1e33)


section \<open>Evaluating the printing functions\<close>

lemma digits_small: "n < 10 \<Longrightarrow> digits n = [hex_char n]"
  by (simp add: digits.simps)

lemma digits_big: "10 \<le> n \<Longrightarrow> digits n = digits (n div 10) @ [hex_char (n mod 10)]"
  by (subst digits.simps) simp

lemma replicate_numeral_eval: "replicate (numeral k) x = x # replicate (pred_numeral k) x"
  by (simp add: numeral_eq_Suc)

lemma hex_char_0: "hex_char 0 = CHR ''0''"
  by (simp add: hex_char_def)

lemma digits_nonempty: "digits n \<noteq> []"
  by (subst digits.simps) simp

lemma place_point_2:
  "place_point 2 (digits n) =
     digits (n div 100) @ ''.'' @ [hex_char (n div 10 mod 10), hex_char (n mod 10)]"
proof -
  consider "n < 10" | "10 \<le> n" "n < 100" | "100 \<le> n" by linarith
  then show ?thesis
  proof cases
    case 1
    then show ?thesis
      by (simp add: place_point_def digits_small replicate_numeral_eval hex_char_0)
  next
    case 2
    then have "n div 10 < 10" "n div 100 = 0" by auto
    with 2 show ?thesis
      by (simp add: place_point_def digits_big digits_small hex_char_0)
  next
    case 3
    then have a: "10 \<le> n" and b: "10 \<le> n div 10" by auto
    have c: "n div 10 div 10 = n div 100" by (simp add: div_mult2_eq)
    show ?thesis
      by (simp add: place_point_def digits_big [OF a] digits_big [OF b] c digits_nonempty Let_def)
  qed
qed

lemma toFixed_two_decimals:
  assumes "0 \<le> x" and "x < 10 ^ 21"
  shows "toFixed 2 (Finite x) = two_decimals x"
proof -
  from assms have "\<not> x < 0" "\<bar>x\<bar> = x" "\<not> 10 ^ 21 \<le> x" by auto
  then show ?thesis
    by (simp add: toFixed_def two_decimals_def place_point_2 Let_def)
qed

lemma toFixed_signed:
  assumes "\<bar>x\<bar> < 10 ^ 21"
  shows "toFixed 2 (Finite x) = (if x < 0 then ''-'' else '''') @ two_decimals \<bar>x\<bar>"
proof -
  from assms have "\<not> 10 ^ 21 \<le> \<bar>x\<bar>" by auto
  then show ?thesis
    by (simp add: toFixed_def two_decimals_def place_point_2 Let_def)
qed

lemma toFixed_2_zero: "toFixed 2 (Finite 0) = ''0.00''"
  using toFixed_two_decimals [of 0]
  by (simp add: two_decimals_def digits_small hex_char_def)

lemma toFixed_large:
  assumes "10 ^ 21 \<le> x"
  shows "toFixed f (Finite x) = exponent_notation x"
proof -
  from assms have "\<not> x < 0" "\<bar>x\<bar> = x"
    by (auto intro: order_trans [of 0 "10 ^ 21" x, THEN leD])
  with assms show ?thesis
    by (simp add: toFixed_def Let_def)
qed

lemma fl_1e21: "fl (1000000000000000000000) = Finite 1000000000000000000000"
  using fl_near [where x = "1000000000000000000000" and e = "69" and m = "7629394531250000"]
  by simp

lemma fl_2e21: "fl (2000000000000000000000) = Finite 2000000000000000000000"
  using fl_near [where x = "2000000000000000000000" and e = "70" and m = "7629394531250000"]
  by simp

lemma shortest_numeral:
  "shortest (numeral n) x d k =
     (case candidate x d k of
        Some s \<Rightarrow> (s, k)
      | None \<Rightarrow> shortest (pred_numeral n) x d (k + 1))"
  by (simp add: numeral_eq_Suc)

lemma exponent_notation_1e21: "exponent_notation 1000000000000000000000 = ''1e+21''"
proof -
  have d: "length (digits 1000000000000000000000) = 22"
    by (simp add: digits_big digits_small)
  have c: "candidate 1000000000000000000000 22 (Suc 0) = Some 1"
    by (simp add: candidate_def fl_1e21 fl_2e21)
  have n: "nat \<lfloor>1000000000000000000000 :: real\<rfloor> = 1000000000000000000000"
    by simp
  show ?thesis
    unfolding exponent_notation_def n d
    by (simp add: c shortest_numeral digits_big digits_small hex_char_def)
qed

lemma quotient_two_decimals:
  assumes "1 \<le> x" and "x < 1024"
  shows "\<exists>y. fl x = Finite y \<and> toFixed 2 (Finite y) = two_decimals y"
proof -
  have "\<exists>r. fl x = Finite r \<and> 2 powi 0 \<le> r \<and> r \<le> 2 powi 10"
    using assms by (intro fl_range) simp_all
  then obtain r where r: "fl x = Finite r" "1 \<le> r" "r \<le> 1024" by auto
  then have "toFixed 2 (Finite r) = two_decimals r"
    by (intro toFixed_two_decimals) simp_all
  with r show ?thesis by blast
qed

lemma trillions_two_decimals:
  assumes "1 \<le> x" and "x \<le> 10 ^ 21 - 2 ^ 17"
  shows "\<exists>y. fl x = Finite y \<and> toFixed 2 (Finite y) = two_decimals y"
proof -
  have "\<exists>r. fl x = Finite r \<and> 0 \<le> r \<and> r < 10 ^ 21"
  proof (cases "x < 2 ^ 69")
    case True
    have "\<exists>r. fl x = Finite r \<and> 2 powi 0 \<le> r \<and> r \<le> 2 powi 69"
      using assms True by (intro fl_range) simp_all
    then obtain r where "fl x = Finite r" "1 \<le> r" "r \<le> 2 ^ 69" by auto
    then show ?thesis by (intro exI [of _ r]) simp
  next
    case False
    have "\<exists>r. fl x = Finite r \<and> 2 powi 69 \<le> r
        \<and> r \<le> of_int 7629394531249999 * 2 powi (69 - 52)"
      using assms False by (intro fl_upto) simp_all
    then obtain r where "fl x = Finite r" "2 ^ 69 \<le> r" "r \<le> 7629394531249999 * 2 ^ 17"
      by auto
    then show ?thesis by (intro exI [of _ r]) simp
  qed
  then obtain r where r: "fl x = Finite r" "0 \<le> r" "r < 10 ^ 21" by auto
  then have "toFixed 2 (Finite r) = two_decimals r"
    by (intro toFixed_two_decimals)
  with r show ?thesis by blast
qed

lemma en_US_999: "en_US 999 = ''999''"
  by (simp add: en_US_def grouped_def digits_big digits_small hex_char_def replicate_numeral_eval)

lemma en_US_123456: "en_US 123456 = ''123,456''"
  by (simp add: en_US_def grouped_def digits_big digits_small hex_char_def replicate_numeral_eval)

lemma en_US_999999: "en_US 999999 = ''999,999''"
  by (simp add: en_US_def grouped_def digits_big digits_small hex_char_def replicate_numeral_eval)

lemma en_US_1234_5: "en_US (2469 / 2) = ''1,234.5''"
  by (simp add: en_US_def grouped_def digits_big digits_small hex_char_def replicate_numeral_eval)











section \<open>Reading the payloads\<close>

lemma first_bar_snapshot: "first_bar (snapshot b) = Some b"
  by (simp add: first_bar_def snapshot_def)

lemma revenues_value_default:
  "or_zero (revenues_value p) =
     (case revenues (income_statement (financials p)) of None \<Rightarrow> 0 | Some m \<Rightarrow> metric.value m)"
  by (simp add: revenues_value_def or_zero_def split: option.splits)

lemma net_income_loss_value_default:
  "or_zero (net_income_loss_value p) =
     (case net_income_loss (income_statement (financials p)) of
        None \<Rightarrow> 0 | Some m \<Rightarrow> metric.value m)"
  by (simp add: net_income_loss_value_def or_zero_def split: option.splits)


section \<open>The price figures on the examples\<close>

lemma fl_tenth: "fl (1 / 10) = Finite (3602879701896397 / 36028797018963968)"
  using fl_near [where x = "1 / 10" and e = "- 4" and m = "7205759403792794"]
  by simp

lemma fl_percent_up: "fl (90071992547409925 / 9007199254740992) = Finite 10"
  using fl_near [where x = "90071992547409925 / 9007199254740992" and e = "3" and m = "5629499534213120"]
  by simp

lemma fl_23_64: "fl (23 / 64) = Finite (23 / 64)"
  using fl_near [where x = "23 / 64" and e = "- 2" and m = "6473924464345088"]
  by simp

lemma fl_23_160: "fl (23 / 160) = Finite (2589569785738035 / 18014398509481984)"
  using fl_near [where x = "23 / 160" and e = "- 3" and m = "5179139571476070"]
  by simp

lemma fl_percent_fraction: "fl (64739244643450875 / 4503599627370496) = Finite (8092405580431359 / 562949953421312)"
  using fl_near [where x = "64739244643450875 / 4503599627370496" and e = "3" and m = "8092405580431359"]
  by simp

lemma fl_1e19_less_1: "fl (9999999999999999999) = Finite 10000000000000000000"
  using fl_near [where x = "9999999999999999999" and e = "63" and m = "4882812500000000"]
  by simp

lemma fl_1e19: "fl (10000000000000000000) = Finite 10000000000000000000"
  using fl_near [where x = "10000000000000000000" and e = "63" and m = "4882812500000000"]
  by simp

lemma percent_up: "priceChangePercent (snapshot bar_up) = ''10.00''"
proof -
  have "two_decimals 10 = ''10.00''"
    by (simp add: two_decimals_def digits_big digits_small hex_char_def)
  then show ?thesis
    by (simp add: priceChangePercent_def priceChange_def previousClose_def currentPrice_def
        first_bar_snapshot bar_up_def or_zero_def fsub_def fl_numeral fl_tenth fl_percent_up
        toFixed_two_decimals)
qed

lemma percent_fraction: "priceChangePercent (snapshot bar_fraction) = ''14.37''"
proof -
  have "two_decimals (8092405580431359 / 562949953421312) = ''14.37''"
    by (simp add: two_decimals_def digits_big digits_small hex_char_def)
  then show ?thesis
    by (simp add: priceChangePercent_def priceChange_def previousClose_def currentPrice_def
        first_bar_snapshot bar_fraction_def or_zero_def fsub_def fl_23_64 fl_23_160
        fl_percent_fraction toFixed_two_decimals)
qed

lemma percent_huge: "priceChangePercent (snapshot bar_huge) = ''1e+21''"
  by (simp add: priceChangePercent_def priceChange_def previousClose_def currentPrice_def
      first_bar_snapshot bar_huge_def or_zero_def fsub_def fl_1e19_less_1 fl_1e19 fl_1e21
      toFixed_large exponent_notation_1e21)


section \<open>The segment split on the examples\<close>





lemma fl_3_2: "fl (3 / 2) = Finite (3 / 2)"
  using fl_near [where x = "3 / 2" and e = "0" and m = "6755399441055744"]
  by simp

lemma fl_seg_9_55_share: "fl (22292818155483957 / 4503599627370496) = Finite (5573204538870989 / 1125899906842624)"
  using fl_near [where x = "22292818155483957 / 4503599627370496" and e = "2" and m = "5573204538870989"]
  by simp

lemma fl_seg_9_55_tenths: "fl (27866022694354945 / 562949953421312) = Finite (99 / 2)"
  using fl_near [where x = "27866022694354945 / 562949953421312" and e = "5" and m = "6966505673588736"]
  by simp

lemma fl_seg_9_30_share: "fl (48638875975601355 / 18014398509481984) = Finite (6079859496950169 / 2251799813685248)"
  using fl_near [where x = "48638875975601355 / 18014398509481984" and e = "1" and m = "6079859496950169"]
  by simp

lemma fl_seg_9_30_tenths: "fl (30399297484750845 / 1125899906842624) = Finite (7599824371187711 / 281474976710656)"
  using fl_near [where x = "30399297484750845 / 1125899906842624" and e = "4" and m = "7599824371187711"]
  by simp

lemma fl_seg_9_30_value: "fl (27 / 10) = Finite (3039929748475085 / 1125899906842624)"
  using fl_near [where x = "27 / 10" and e = "1" and m = "6079859496950170"]
  by simp

lemma fl_seg_9_15_share: "fl (48638875975601355 / 36028797018963968) = Finite (6079859496950169 / 4503599627370496)"
  using fl_near [where x = "48638875975601355 / 36028797018963968" and e = "0" and m = "6079859496950169"]
  by simp

lemma fl_seg_9_15_tenths: "fl (30399297484750845 / 2251799813685248) = Finite (7599824371187711 / 562949953421312)"
  using fl_near [where x = "30399297484750845 / 2251799813685248" and e = "3" and m = "7599824371187711"]
  by simp

lemma fl_seg_9_15_value: "fl (13 / 10) = Finite (5854679515581645 / 4503599627370496)"
  using fl_near [where x = "13 / 10" and e = "0" and m = "5854679515581645"]
  by simp


text \<open>
  For a revenue of 9 the share of Other is the number just below 1.35, ten times it the
  number just below 13.5, and the value 1.3; and the share of Services is the number just
  below 2.7.
\<close>

lemma generateDemoSegmentsData_9:
  "map segment.value (generateDemoSegmentsData 9) = [Finite 5, fl 2.7, fl 1.3]"
  by (simp add: generateDemoSegmentsData_def fl_0_55 fl_0_30 fl_0_15 fl_numeral
      fl_seg_9_55_share fl_seg_9_55_tenths fl_seg_9_30_share fl_seg_9_30_tenths
      fl_seg_9_30_value fl_seg_9_15_share fl_seg_9_15_tenths fl_seg_9_15_value)


section \<open>Currency formatting on the examples\<close>

lemma fl_decillion_trillions: "fl (244140624999999986712702877696 / 244140625) = Finite 1000000000000000000000"
  using fl_near [where x = "244140624999999986712702877696 / 244140625" and e = "69" and m = "7629394531250000"]
  by simp

lemma fl_2_3: "fl (23 / 10) = Finite (2589569785738035 / 1125899906842624)"
  using fl_near [where x = "23 / 10" and e = "1" and m = "5179139571476070"]
  by simp

lemma fl_1_005: "fl (201 / 200) = Finite (1131529406376837 / 1125899906842624)"
  using fl_near [where x = "201 / 200" and e = "0" and m = "4526117625507348"]
  by simp

lemma formatCurrency_decillion: "formatCurrency h decillion = ''$1e+21T''"
  by (simp add: formatCurrency_def decillion_def fl_decillion_trillions toFixed_large
      exponent_notation_1e21)

lemma formatCurrency_examples:
  "formatCurrency h 1500000000 = ''$1.50B''"
  "formatCurrency h 2300000000000 = ''$2.30T''"
  "formatCurrency h 1005000000 = ''$1.00B''"
proof -
  have "two_decimals (3 / 2) = ''1.50''"
    "two_decimals (2589569785738035 / 1125899906842624) = ''2.30''"
    "two_decimals (1131529406376837 / 1125899906842624) = ''1.00''"
    by (simp_all add: two_decimals_def digits_big digits_small hex_char_def)
  then show "formatCurrency h 1500000000 = ''$1.50B''"
    "formatCurrency h 2300000000000 = ''$2.30T''"
    "formatCurrency h 1005000000 = ''$1.00B''"
    by (simp_all add: formatCurrency_def fl_3_2 fl_2_3 fl_1_005 toFixed_two_decimals)
qed

text \<open>
  The numbers around \<open>1e33\<close> are \<open>2^57\<close> apart, so the greatest number below \<open>1e33\<close> is
  \<open>decillion - 2^57\<close>; its quotient by \<open>10^12\<close> is at most the greatest number below \<open>10^21\<close>.
\<close>

lemma below_decillion: "decillion - 2 ^ 57 \<le> 10 ^ 12 * (10 ^ 21 - 2 ^ 17)"
  by (simp add: decillion_def)


section \<open>Evaluating the projection\<close>

lemma generateDCFData_Cons:
  "generateDCFData h (p # ps) =
     map (\<lambda>n.
       \<lparr> dcf_point.year =
           Number_toString
             (fadd (fadd (parseInt (if fiscal_year p \<noteq> [] then fiscal_year p
                                    else Number_toString (Finite (of_int (clockYear h)))))
                      (Finite (real n - 1)))
                (Finite 1)),
         fcf = Math_round
           (fmul (fmul (fdiv (Finite (or_zero (revenues_value p))) (Finite (10 ^ 9)))
                    (Math_pow h (fl 1.05) (Finite (real n))))
              (fl 0.15)),
         dcf = Math_round
           (fmul (fmul (fmul (fdiv (Finite (or_zero (revenues_value p))) (Finite (10 ^ 9)))
                          (Math_pow h (fl 1.05) (Finite (real n))))
                    (fl 0.15))
              (Math_pow h (fl 0.97) (Finite (real n)))) \<rparr>)
       [1..<6]"
proof -
  have u: "[1..<6] = map Suc [0..<5]"
    by code_simp
  show ?thesis
    unfolding generateDCFData_def u
    by (simp add: Let_def o_def ac_simps)
qed

lemma one_to_five: "[1..<6] = [1, 2, 3, 4, 5::nat]"
  by (simp add: upt_rec)


lemma fl_growth_1: "fl (4728779608739021 / 4503599627370496) = Finite (4728779608739021 / 4503599627370496)"
  using fl_near [where x = "4728779608739021 / 4503599627370496" and e = "0" and m = "4728779608739021"]
  by simp

lemma fl_discount_1: "fl (4368491638549381 / 4503599627370496) = Finite (4368491638549381 / 4503599627370496)"
  using fl_near [where x = "4368491638549381 / 4503599627370496" and e = "- 1" and m = "8736983277098762"]
  by simp

lemma fl_2024_grown_1: "fl (118219490218475525 / 1125899906842624) = Finite 105"
  using fl_near [where x = "118219490218475525 / 1125899906842624" and e = "6" and m = "7388718138654720"]
  by simp

lemma fl_2024_margin_1: "fl (567453553048682475 / 36028797018963968) = Finite (63 / 4)"
  using fl_near [where x = "567453553048682475 / 36028797018963968" and e = "3" and m = "8866461766385664"]
  by simp

lemma fl_2024_discounted_1: "fl (275214973228611003 / 18014398509481984) = Finite (4300233956697047 / 281474976710656)"
  using fl_near [where x = "275214973228611003 / 18014398509481984" and e = "3" and m = "8600467913394094"]
  by simp

lemma fl_growth_2: "fl (22361356588025968533913688038441 / 20282409603651670423947251286016) = Finite (1241304647293993 / 1125899906842624)"
  using fl_near [where x = "22361356588025968533913688038441 / 20282409603651670423947251286016" and e = "0" and m = "4965218589175972"]
  by simp

lemma fl_discount_2: "fl (19083719196075855653453975483161 / 20282409603651670423947251286016) = Finite (8474873778785799 / 9007199254740992)"
  using fl_near [where x = "19083719196075855653453975483161 / 20282409603651670423947251286016" and e = "- 1" and m = "8474873778785799"]
  by simp

lemma fl_2024_grown_2: "fl (31032616182349825 / 281474976710656) = Finite (441 / 4)"
  using fl_near [where x = "31032616182349825 / 281474976710656" and e = "6" and m = "7758154045587456"]
  by simp

lemma fl_2024_margin_2: "fl (2383304922804466395 / 144115188075855872) = Finite (4654892427352473 / 281474976710656)"
  using fl_near [where x = "2383304922804466395 / 144115188075855872" and e = "4" and m = "4654892427352473"]
  by simp

lemma fl_2024_discounted_2: "fl (39449625775638053205674139930927 / 2535301200456458802993406410752) = Finite (8759576569791883 / 562949953421312)"
  using fl_near [where x = "39449625775638053205674139930927 / 2535301200456458802993406410752" and e = "3" and m = "8759576569791883"]
  by simp

lemma fl_growth_3: "fl (105741927057199169084660243720154748558984706261 / 91343852333181432387730302044767688728495783936) = Finite (5213479518634771 / 4503599627370496)"
  using fl_near [where x = "105741927057199169084660243720154748558984706261 / 91343852333181432387730302044767688728495783936" and e = "0" and m = "5213479518634771"]
  by simp

lemma fl_discount_3: "fl (83367067740481690571468067370796036812632473341 / 91343852333181432387730302044767688728495783936) = Finite (8220627565422225 / 9007199254740992)"
  using fl_near [where x = "83367067740481690571468067370796036812632473341 / 91343852333181432387730302044767688728495783936" and e = "- 1" and m = "8220627565422225"]
  by simp

lemma fl_2024_grown_3: "fl (130336987965869275 / 1125899906842624) = Finite (4073030873933415 / 35184372088832)"
  using fl_near [where x = "130336987965869275 / 1125899906842624" and e = "6" and m = "8146061747866830"]
  by simp

lemma fl_2024_margin_3: "fl (22011960391338063341599872641925 / 1267650600228229401496703205376) = Finite (2443818524360049 / 140737488355328)"
  using fl_near [where x = "22011960391338063341599872641925 / 1267650600228229401496703205376" and e = "4" and m = "4887637048720098"]
  by simp

lemma fl_2024_discounted_3: "fl (20089721926243684070598606689025 / 1267650600228229401496703205376) = Finite (2230407184083259 / 140737488355328)"
  using fl_near [where x = "20089721926243684070598606689025 / 1267650600228229401496703205376" and e = "3" and m = "8921628736333036"]
  by simp

lemma fl_growth_4: "fl (500030268456852385037823773248292531564406746585696162293710481 / 411376139330301510538742295639337626245683966408394965837152256) = Finite (2737076747283255 / 2251799813685248)"
  using fl_near [where x = "500030268456852385037823773248292531564406746585696162293710481 / 411376139330301510538742295639337626245683966408394965837152256" and e = "0" and m = "5474153494566510"]
  by simp

lemma fl_discount_4: "fl (364188338354674102395895265341186830539760430057577263394551921 / 411376139330301510538742295639337626245683966408394965837152256) = Finite (3987004369229779 / 4503599627370496)"
  using fl_near [where x = "364188338354674102395895265341186830539760430057577263394551921 / 411376139330301510538742295639337626245683966408394965837152256" and e = "- 1" and m = "7974008738459558"]
  by simp

lemma fl_2024_grown_4: "fl (68426918682081375 / 562949953421312) = Finite (2138341208815043 / 17592186044416)"
  using fl_near [where x = "68426918682081375 / 562949953421312" and e = "6" and m = "8553364835260172"]
  by simp

lemma fl_2024_margin_4: "fl (11556279205452483929879877242585 / 633825300114114700748351602688) = Finite (5132018901156103 / 281474976710656)"
  using fl_near [where x = "11556279205452483929879877242585 / 633825300114114700748351602688" and e = "4" and m = "5132018901156103"]
  by simp

lemma fl_2024_discounted_4: "fl (20461381781879191983102755191237 / 1267650600228229401496703205376) = Finite (2271669716988799 / 140737488355328)"
  using fl_near [where x = "20461381781879191983102755191237 / 1267650600228229401496703205376" and e = "4" and m = "4543339433977598"]
  by simp

lemma fl_growth_5: "fl (2364532937231062055258276874077179206810189356841323075006864392763131661379101 / 1852673427797059126777135760139006525652319754650249024631321344126610074238976) = Finite (1436965292323709 / 1125899906842624)"
  using fl_near [where x = "2364532937231062055258276874077179206810189356841323075006864392763131661379101 / 1852673427797059126777135760139006525652319754650249024631321344126610074238976" and e = "0" and m = "5747861169294836"]
  by simp

lemma fl_discount_5: "fl (1590953710959586648045253445215125222977073027378574258503485416186298926910901 / 1852673427797059126777135760139006525652319754650249024631321344126610074238976) = Finite (7734788476305771 / 9007199254740992)"
  using fl_near [where x = "1590953710959586648045253445215125222977073027378574258503485416186298926910901 / 1852673427797059126777135760139006525652319754650249024631321344126610074238976" and e = "- 1" and m = "7734788476305771"]
  by simp

lemma fl_2024_grown_5: "fl (35924132308092725 / 281474976710656) = Finite (8981033077023181 / 70368744177664)"
  using fl_near [where x = "35924132308092725 / 281474976710656" and e = "6" and m = "8981033077023181"]
  by simp

lemma fl_2024_margin_5: "fl (48536372662900434667223305556695 / 2535301200456458802993406410752) = Finite (1347154961553477 / 70368744177664)"
  using fl_near [where x = "48536372662900434667223305556695 / 2535301200456458802993406410752" and e = "4" and m = "5388619846213908"]
  by simp

lemma fl_2024_discounted_5: "fl (10419958672421977877080220215767 / 633825300114114700748351602688) = Finite (578423901688273 / 35184372088832)"
  using fl_near [where x = "10419958672421977877080220215767 / 633825300114114700748351602688" and e = "4" and m = "4627391213506184"]
  by simp

lemma fl_tie_revenue: "fl (6815578465063 / 500000000) = Finite (7493807772356471 / 549755813888)"
  using fl_near [where x = "6815578465063 / 500000000" and e = "13" and m = "7493807772356471"]
  by simp

lemma fl_tie_grown_1: "fl (35436565385729267485378019554891 / 2475880078570760549798248448) = Finite (7868498160974295 / 549755813888)"
  using fl_near [where x = "35436565385729267485378019554891 / 2475880078570760549798248448" and e = "13" and m = "7868498160974295"]
  by simp

lemma fl_tie_margin_1: "fl (42523878462875120042183924685525 / 19807040628566084398385987584) = Finite (4721098896584577 / 2199023255552)"
  using fl_near [where x = "42523878462875120042183924685525 / 19807040628566084398385987584" and e = "11" and m = "4721098896584577"]
  by simp

lemma fl_tie_discounted_1: "fl (20624081054494433417171657496837 / 9903520314283042199192993792) = Finite (4165 / 2)"
  using fl_near [where x = "20624081054494433417171657496837 / 9903520314283042199192993792" and e = "11" and m = "4579465929687040"]
  by simp

lemma fl_2_53_plus_1: "fl (9007199254740993) = Finite 9007199254740992"
  using fl_tie_down [where x = "9007199254740993" and e = "53" and m = "4503599627370496"]
  by simp

lemmas fl_projection = fl_growth_1 fl_discount_1 fl_2024_grown_1 fl_2024_margin_1 fl_2024_discounted_1 fl_growth_2 fl_discount_2 fl_2024_grown_2 fl_2024_margin_2 fl_2024_discounted_2 fl_growth_3 fl_discount_3 fl_2024_grown_3 fl_2024_margin_3 fl_2024_discounted_3 fl_growth_4 fl_discount_4 fl_2024_grown_4 fl_2024_margin_4 fl_2024_discounted_4 fl_growth_5 fl_discount_5 fl_2024_grown_5 fl_2024_margin_5 fl_2024_discounted_5 fl_tie_revenue fl_tie_grown_1 fl_tie_margin_1 fl_tie_discounted_1 fl_2_53_plus_1


text \<open>
  A revenue of 13631156930126: the first discounted value is the number 2082.5, so the
  \<open>dcf\<close> is 2083, where the product of the four factors is just below 2082.5.
\<close>

lemma generateDCFData_period_tie:
  assumes "Math_pow h = pow_rounded"
  shows "dcf (generateDCFData h [period_tie] ! 0) = Finite 2083"
    and "\<lfloor>13631156930126 / 10 ^ 9 * 1.05 * 0.15 * 0.97 + 1 / 2 :: real\<rfloor> = 2082"
proof -
  have r: "or_zero (revenues_value period_tie) = 13631156930126"
    by (simp add: period_tie_def period_2024_def revenues_value_def or_zero_def)
  show "dcf (generateDCFData h [period_tie] ! 0) = Finite 2083"
    unfolding generateDCFData_Cons r one_to_five assms
    by (simp add: fl_1_05 fl_0_97 fl_0_15 fl_projection)
  show "\<lfloor>13631156930126 / 10 ^ 9 * 1.05 * 0.15 * 0.97 + 1 / 2 :: real\<rfloor> = 2082"
    by simp
qed






section \<open>The earlier variant of the page, on the examples\<close>

text \<open>
  Below one trillion the two \<open>formatCurrency\<close> agree. With no trillion band, 2.3 trillion is
  printed in billions; the single series keeps dollars.
\<close>

lemma formatCurrency_basic_below_trillion:
  "v < 10 ^ 12 \<Longrightarrow> formatCurrency_basic h v = formatCurrency h v"
  by (simp add: formatCurrency_basic_def formatCurrency_def)

lemma formatCurrency_basic_trillions:
  "formatCurrency_basic h 2300000000000 = ''$2300.00B''"
proof -
  have "two_decimals 2300 = ''2300.00''"
    by (simp add: two_decimals_def digits_big digits_small hex_char_def)
  then show ?thesis
    by (simp add: formatCurrency_basic_def fl_numeral toFixed_two_decimals)
qed

lemma revenueChartData_basic_dollars:
  "revenueChartData_basic (Some \<lparr> results = Some [period_2024] \<rparr>) =
     Some [\<lparr> basic_point.year = ''2024'', revenue = 100000000000, netIncome = 25000000000 \<rparr>]"
  by (simp add: revenueChartData_basic_def revenues_value_def net_income_loss_value_def
      or_zero_def period_2024_def)


section \<open>The calls of the proxy\<close>

lemma provider_one_call: "\<exists>call. snd (answer (provider var key fetch p sep)) = [call]"
  by (cases var) (simp_all add: answer_def provider_def fetch_url_def polygonFetch_def Let_def)

lemma provider_failure:
  assumes "snd (answer (provider var key fetch p sep)) = [call]"
  shows "(\<forall>r. fetch call = Resolves r \<and> \<not> ok r
              \<and> (var = KeyInHeaders \<longrightarrow> (\<exists>b. text_result r = Inr b)) \<longrightarrow>
            fst (answer (provider var key fetch p sep)) =
              \<lparr> status = 500, json = ErrorBody (''Polygon API error: '' @ statusText r) \<rparr>)
       \<and> (\<forall>r msg. fetch call = Resolves r \<and> \<not> ok r
              \<and> var = KeyInHeaders \<and> text_result r = Inl msg \<longrightarrow>
            fst (answer (provider var key fetch p sep)) =
              \<lparr> status = 500, json = ErrorBody msg \<rparr>)
       \<and> (\<forall>msg. fetch call = Rejects msg \<longrightarrow>
            fst (answer (provider var key fetch p sep)) =
              \<lparr> status = 500, json = ErrorBody msg \<rparr>)"
proof (cases var)
  case KeyInUrl
  with assms show ?thesis
    by (auto simp: answer_def provider_def fetch_url_def relay_def server_error_def Let_def)
next
  case KeyInHeaders
  with assms show ?thesis
    by (auto simp: answer_def provider_def polygonFetch_def relay_def server_error_def Let_def)
qed

lemma encodeURIComponent_blank: "encodeURIComponent '' '' = ''%20''"
  by (simp add: encodeURIComponent_def encodeChar_def uriUnreserved_def pct_def hex_char_def)


section \<open>The colour bands\<close>

text \<open>
  Claim C9. For every real growth figure \<open>getGrowthColor\<close> returns one of exactly four
  colours, chosen by threshold: the strong colour from 15 up, the good colour from 5 up to
  15, the slow colour from \<open>-5\<close> up to 5, and the decline colour below \<open>-5\<close>. The fifth colour
  of the source, behind the repeated test, is returned for no input.
\<close>

theorem getGrowthColor_bands:
  "(15 \<le> g \<longrightarrow> getGrowthColor g = ''#10B981'')
   \<and> (5 \<le> g \<and> g < 15 \<longrightarrow> getGrowthColor g = ''#3B82F6'')
   \<and> (- 5 \<le> g \<and> g < 5 \<longrightarrow> getGrowthColor g = ''#F59E0B'')
   \<and> (g < - 5 \<longrightarrow> getGrowthColor g = ''#EF4444'')
   \<and> getGrowthColor g \<in> {''#10B981'', ''#3B82F6'', ''#F59E0B'', ''#EF4444''}
   \<and> getGrowthColor g \<noteq> ''#F97316''
   \<and> range getGrowthColor = {''#10B981'', ''#3B82F6'', ''#F59E0B'', ''#EF4444''}"
proof -
  have bands: "(15 \<le> x \<longrightarrow> getGrowthColor x = ''#10B981'')
     \<and> (5 \<le> x \<and> x < 15 \<longrightarrow> getGrowthColor x = ''#3B82F6'')
     \<and> (- 5 \<le> x \<and> x < 5 \<longrightarrow> getGrowthColor x = ''#F59E0B'')
     \<and> (x < - 5 \<longrightarrow> getGrowthColor x = ''#EF4444'')
     \<and> getGrowthColor x \<in> {''#10B981'', ''#3B82F6'', ''#F59E0B'', ''#EF4444''}
     \<and> getGrowthColor x \<noteq> ''#F97316''" for x
    by (simp add: getGrowthColor_def)
  have sub: "range getGrowthColor \<subseteq> {''#10B981'', ''#3B82F6'', ''#F59E0B'', ''#EF4444''}"
    using bands by blast
  have "getGrowthColor 20 = ''#10B981''" "getGrowthColor 10 = ''#3B82F6''"
    "getGrowthColor 0 = ''#F59E0B''" "getGrowthColor (- 10) = ''#EF4444''"
    by (simp_all add: getGrowthColor_def)
  then have "''#10B981'' \<in> range getGrowthColor" "''#3B82F6'' \<in> range getGrowthColor"
    "''#F59E0B'' \<in> range getGrowthColor" "''#EF4444'' \<in> range getGrowthColor"
    by (metis rangeI)+
  with sub have "range getGrowthColor = {''#10B981'', ''#3B82F6'', ''#F59E0B'', ''#EF4444''}"
    by blast
  with bands [of g] show ?thesis by blast
qed

theorem getGrowthColor_bands_witness:
  "getGrowthColor 20 = ''#10B981'' \<and> getGrowthColor 10 = ''#3B82F6''
   \<and> getGrowthColor 0 = ''#F59E0B'' \<and> getGrowthColor (- 10) = ''#EF4444''"
  using getGrowthColor_bands [of 20] getGrowthColor_bands [of 10]
    getGrowthColor_bands [of 0] getGrowthColor_bands [of "- 10"]
  by simp


section \<open>The segment split\<close>




section \<open>The price figures\<close>

text \<open>
  Claim C10. When the first bar has no open price, or an open price of zero, and has a close
  price, the previous close is the close price itself, the price change is 0, and for a
  positive close the percent string is \<open>0.00\<close>. The previous close can only be zero when the
  current price is zero, that is when both the close and the open of the bar are absent or
  zero (or there is no bar at all).
\<close>

theorem open_missing_falls_back:
  "(first_bar pd = Some b \<and> (bar_o b = None \<or> bar_o b = Some 0) \<and> bar_c b = Some cl \<longrightarrow>
      previousClose pd = cl \<and> priceChange pd = Finite 0
      \<and> (0 < cl \<longrightarrow> priceChangePercent pd = ''0.00''))
   \<and> (previousClose pd = 0 \<longrightarrow>
        currentPrice pd = 0
        \<and> (\<forall>b'. first_bar pd = Some b' \<longrightarrow>
              (bar_c b' = None \<or> bar_c b' = Some 0) \<and> (bar_o b' = None \<or> bar_o b' = Some 0)))"
proof (intro conjI impI)
  assume a: "first_bar pd = Some b \<and> (bar_o b = None \<or> bar_o b = Some 0) \<and> bar_c b = Some cl"
  then show pc: "previousClose pd = cl"
    by (auto simp: previousClose_def currentPrice_def or_zero_def)
  from a have cp: "currentPrice pd = cl"
    by (auto simp: currentPrice_def or_zero_def)
  from pc cp show "priceChange pd = Finite 0"
    by (simp add: priceChange_def fsub_def fl_0)
  assume "0 < cl"
  with pc cp show "priceChangePercent pd = ''0.00''"
    by (simp add: priceChangePercent_def priceChange_def fsub_def fl_0 toFixed_2_zero)
next
  assume z: "previousClose pd = 0"
  then show "currentPrice pd = 0"
    by (auto simp: previousClose_def split: option.splits if_splits)
  from z show "\<forall>b'. first_bar pd = Some b' \<longrightarrow>
      (bar_c b' = None \<or> bar_c b' = Some 0) \<and> (bar_o b' = None \<or> bar_o b' = Some 0)"
    by (auto simp: previousClose_def currentPrice_def or_zero_def split: option.splits if_splits)
qed

theorem open_missing_falls_back_witness:
  "previousClose (snapshot bar_no_open) = 10
   \<and> priceChange (snapshot bar_no_open) = Finite 0
   \<and> priceChangePercent (snapshot bar_no_open) = ''0.00''
   \<and> previousClose (snapshot bar_flat_zero) = 0
   \<and> currentPrice (snapshot bar_flat_zero) = 0"
proof -
  have one: "first_bar (snapshot bar_no_open) = Some bar_no_open
     \<and> (bar_o bar_no_open = None \<or> bar_o bar_no_open = Some 0)
     \<and> bar_c bar_no_open = Some 10"
    by (simp add: first_bar_snapshot bar_no_open_def)
  have two: "previousClose (snapshot bar_flat_zero) = 0"
    by (simp add: previousClose_def currentPrice_def first_bar_snapshot or_zero_def
        bar_flat_zero_def)
  have ten: "(0::real) < 10" by simp
  from one ten
    open_missing_falls_back [of "snapshot bar_no_open" bar_no_open 10]
  have a: "previousClose (snapshot bar_no_open) = 10
     \<and> priceChange (snapshot bar_no_open) = Finite 0
     \<and> priceChangePercent (snapshot bar_no_open) = ''0.00''"
    by blast
  from two open_missing_falls_back [of "snapshot bar_flat_zero"]
  have b: "currentPrice (snapshot bar_flat_zero) = 0"
    by blast
  from a b two show ?thesis by blast
qed

text \<open>
  Two bars. With close 10 and open 0, the previous close derived from the bar is 10, not
  the open. With close \<open>10^19\<close> and open 1, the percent change is \<open>10^21\<close>, and its string is
  in exponent notation, with no decimals.
\<close>

theorem previous_close_is_not_the_open:
  "first_bar (snapshot bar_open_zero) = Some bar_open_zero
   \<and> bar_o bar_open_zero = Some 0
   \<and> previousClose (snapshot bar_open_zero) = 10
   \<and> priceChangePercent (snapshot bar_huge) = ''1e+21''"
  by (simp add: first_bar_snapshot bar_open_zero_def previousClose_def currentPrice_def
      or_zero_def percent_huge)

text \<open>
  Claim C3, as amended. For a bar with a close and an open price, the current price is the
  close; the previous close is the open when the open is not zero, and the close itself
  when the open is zero; the change is the current price minus the previous close, rounded
  to a number. When the previous close is not positive the percent string is \<open>0.00\<close>. When it
  is positive, the percent is the change over the previous close, times 100, each of the
  two operations rounded to a number, and while its magnitude is below \<open>10^21\<close> the percent
  string is this number to two decimals, after a minus sign when it is negative. A close of
  110 on an open of 100 gives \<open>10.00\<close>; a close of 2.859375 on an open of 2.5 gives \<open>14.37\<close>,
  the percent being the number just below 14.375.

  The claim as stated has the previous close equal to the open for every snapshot, and the
  percent string with two decimals for every positive previous close; the two bars above
  show otherwise.
\<close>

theorem price_figures:
  assumes "first_bar pd = Some b" and "bar_c b = Some cl" and "bar_o b = Some op"
  shows "currentPrice pd = cl
     \<and> previousClose pd = (if op = 0 then cl else op)
     \<and> priceChange pd = fl (currentPrice pd - previousClose pd)
     \<and> (\<not> 0 < previousClose pd \<longrightarrow> priceChangePercent pd = ''0.00'')
     \<and> (\<forall>x. 0 < previousClose pd
            \<and> fmul (fdiv (fl (cl - previousClose pd)) (Finite (previousClose pd))) (Finite 100)
                = Finite x
            \<and> \<bar>x\<bar> < 10 ^ 21 \<longrightarrow>
          priceChangePercent pd = (if x < 0 then ''-'' else '''') @ two_decimals \<bar>x\<bar>)
     \<and> priceChangePercent (snapshot bar_up) = ''10.00''
     \<and> priceChangePercent (snapshot bar_fraction) = ''14.37''"
proof (intro conjI allI impI)
  from assms show cp: "currentPrice pd = cl"
    by (simp add: currentPrice_def or_zero_def)
  from assms show "previousClose pd = (if op = 0 then cl else op)"
    by (simp add: currentPrice_def previousClose_def or_zero_def)
  show pc: "priceChange pd = fl (currentPrice pd - previousClose pd)"
    by (simp add: priceChange_def fsub_def)
  show "priceChangePercent pd = ''0.00''" if "\<not> 0 < previousClose pd"
    using that by (simp add: priceChangePercent_def)
  show "priceChangePercent pd = (if x < 0 then ''-'' else '''') @ two_decimals \<bar>x\<bar>"
    if "0 < previousClose pd
        \<and> fmul (fdiv (fl (cl - previousClose pd)) (Finite (previousClose pd))) (Finite 100)
            = Finite x
        \<and> \<bar>x\<bar> < 10 ^ 21" for x
  proof -
    from that pc cp have "priceChangePercent pd = toFixed 2 (Finite x)"
      by (simp add: priceChangePercent_def)
    with that show ?thesis
      by (simp add: toFixed_signed)
  qed
  show "priceChangePercent (snapshot bar_up) = ''10.00''"
    by (rule percent_up)
  show "priceChangePercent (snapshot bar_fraction) = ''14.37''"
    by (rule percent_fraction)
qed

theorem price_figures_witness:
  "currentPrice (snapshot bar_fraction) = 2.859375
   \<and> previousClose (snapshot bar_fraction) = 2.5
   \<and> priceChange (snapshot bar_fraction) = Finite 0.359375
   \<and> fmul (fdiv (fl (2.859375 - 2.5)) (Finite 2.5)) (Finite 100)
       = Finite (8092405580431359 / 562949953421312)
   \<and> priceChangePercent (snapshot bar_fraction)
       = two_decimals (8092405580431359 / 562949953421312)
   \<and> two_decimals (8092405580431359 / 562949953421312) = ''14.37''"
proof -
  have b: "first_bar (snapshot bar_fraction) = Some bar_fraction"
    "bar_c bar_fraction = Some 2.859375" "bar_o bar_fraction = Some 2.5"
    by (simp_all add: first_bar_snapshot bar_fraction_def)
  have x: "fmul (fdiv (fl (2.859375 - 2.5)) (Finite 2.5)) (Finite 100)
      = Finite (8092405580431359 / 562949953421312)"
    by (simp add: fl_23_64 fl_23_160 fl_percent_fraction)
  have t: "two_decimals (8092405580431359 / 562949953421312) = ''14.37''"
    by (simp add: two_decimals_def digits_big digits_small hex_char_def)
  note p = price_figures [OF b]
  from p have 1: "currentPrice (snapshot bar_fraction) = 2.859375" by blast
  from p have 2: "previousClose (snapshot bar_fraction) = 2.5" by simp
  from p 1 2 have 3: "priceChange (snapshot bar_fraction) = Finite 0.359375"
    by (simp add: fl_23_64)
  from p have q: "\<forall>x. 0 < previousClose (snapshot bar_fraction)
            \<and> fmul (fdiv (fl (2.859375 - previousClose (snapshot bar_fraction)))
                  (Finite (previousClose (snapshot bar_fraction)))) (Finite 100)
                = Finite x
            \<and> \<bar>x\<bar> < 10 ^ 21 \<longrightarrow>
          priceChangePercent (snapshot bar_fraction)
            = (if x < 0 then ''-'' else '''') @ two_decimals \<bar>x\<bar>"
    by blast
  from q [unfolded 2, rule_format, of "8092405580431359 / 562949953421312"] x
  have 4: "priceChangePercent (snapshot bar_fraction)
       = two_decimals (8092405580431359 / 562949953421312)"
    by simp
  from 1 2 3 x 4 t show ?thesis by blast
qed


section \<open>The chart series\<close>

text \<open>
  Claim C5. For every payload with a list of periods, \<open>revenueChartData\<close> and
  \<open>profitChartData\<close> give one point for each period, in reverse order: the point at index \<open>i\<close>
  comes from the period at index \<open>length - 1 - i\<close>, its year is the \<open>fiscal_year\<close> of that
  period and its value is the \<open>revenues\<close> (or \<open>net_income_loss\<close>) value over \<open>10^9\<close>, rounded
  to a number, with 0 for an absent field. Both functions are total on such a payload. A
  single period with revenue of 100 billion and net income of 25 billion gives the points
  100 and 25.

  This is the pair of builders at lines 230 to 242. The single builder of the earlier
  variant of the page (\<open>revenueChartData_basic\<close>, lines 789 to 795) keeps the figures in
  dollars.
\<close>

theorem chart_series:
  assumes "results r = Some items"
  shows "(\<exists>rs. revenueChartData (Some r) = Some rs \<and> length rs = length items
            \<and> (\<forall>i<length items.
                  rs ! i =
                    \<lparr> revenue_point.year = fiscal_year (items ! (length items - 1 - i)),
                      revenue =
                        fdiv (Finite
                          (case revenues (income_statement
                                   (financials (items ! (length items - 1 - i)))) of
                             None \<Rightarrow> 0 | Some m \<Rightarrow> metric.value m))
                          (Finite (10 ^ 9)) \<rparr>))
       \<and> (\<exists>ps. profitChartData (Some r) = Some ps \<and> length ps = length items
            \<and> (\<forall>i<length items.
                  ps ! i =
                    \<lparr> profit_point.year = fiscal_year (items ! (length items - 1 - i)),
                      netIncome =
                        fdiv (Finite
                          (case net_income_loss (income_statement
                                   (financials (items ! (length items - 1 - i)))) of
                             None \<Rightarrow> 0 | Some m \<Rightarrow> metric.value m))
                          (Finite (10 ^ 9)) \<rparr>))
       \<and> revenueChartData (Some \<lparr> results = Some [period_2024] \<rparr>) =
            Some [\<lparr> revenue_point.year = ''2024'', revenue = Finite 100 \<rparr>]
       \<and> profitChartData (Some \<lparr> results = Some [period_2024] \<rparr>) =
            Some [\<lparr> profit_point.year = ''2024'', netIncome = Finite 25 \<rparr>]"
proof (intro conjI)
  have idx: "\<And>i. i < length items \<Longrightarrow> length items - Suc i < length items" by simp
  show "\<exists>rs. revenueChartData (Some r) = Some rs \<and> length rs = length items
            \<and> (\<forall>i<length items.
                  rs ! i =
                    \<lparr> revenue_point.year = fiscal_year (items ! (length items - 1 - i)),
                      revenue =
                        fdiv (Finite
                          (case revenues (income_statement
                                   (financials (items ! (length items - 1 - i)))) of
                             None \<Rightarrow> 0 | Some m \<Rightarrow> metric.value m))
                          (Finite (10 ^ 9)) \<rparr>)"
    using assms idx
    by (simp add: revenueChartData_def rev_nth revenues_value_default)
  show "\<exists>ps. profitChartData (Some r) = Some ps \<and> length ps = length items
            \<and> (\<forall>i<length items.
                  ps ! i =
                    \<lparr> profit_point.year = fiscal_year (items ! (length items - 1 - i)),
                      netIncome =
                        fdiv (Finite
                          (case net_income_loss (income_statement
                                   (financials (items ! (length items - 1 - i)))) of
                             None \<Rightarrow> 0 | Some m \<Rightarrow> metric.value m))
                          (Finite (10 ^ 9)) \<rparr>)"
    using assms idx
    by (simp add: profitChartData_def rev_nth net_income_loss_value_default)
  show "revenueChartData (Some \<lparr> results = Some [period_2024] \<rparr>) =
            Some [\<lparr> revenue_point.year = ''2024'', revenue = Finite 100 \<rparr>]"
    by (simp add: revenueChartData_def revenues_value_def or_zero_def period_2024_def fl_numeral)
  show "profitChartData (Some \<lparr> results = Some [period_2024] \<rparr>) =
            Some [\<lparr> profit_point.year = ''2024'', netIncome = Finite 25 \<rparr>]"
    by (simp add: profitChartData_def net_income_loss_value_def or_zero_def period_2024_def fl_numeral)
qed

theorem chart_series_witness:
  "revenueChartData (Some \<lparr> results = Some [period_2024, period_bare] \<rparr>) =
     Some [ \<lparr> revenue_point.year = ''2023'', revenue = Finite 0 \<rparr>,
            \<lparr> revenue_point.year = ''2024'', revenue = Finite 100 \<rparr> ]
   \<and> profitChartData (Some \<lparr> results = Some [period_2024, period_bare] \<rparr>) =
     Some [ \<lparr> profit_point.year = ''2023'', netIncome = Finite 0 \<rparr>,
            \<lparr> profit_point.year = ''2024'', netIncome = Finite 25 \<rparr> ]"
proof -
  define r where "r = \<lparr> results = Some [period_2024, period_bare] \<rparr>"
  have r: "results r = Some [period_2024, period_bare]"
    by (simp add: r_def)
  from chart_series [OF r] obtain rs ps where
    rs: "revenueChartData (Some r) = Some rs" "length rs = 2"
      "\<forall>i<2. rs ! i =
          \<lparr> revenue_point.year = fiscal_year ([period_2024, period_bare] ! (2 - 1 - i)),
            revenue =
              fdiv (Finite
                (case revenues (income_statement
                         (financials ([period_2024, period_bare] ! (2 - 1 - i)))) of
                   None \<Rightarrow> 0 | Some m \<Rightarrow> metric.value m))
                (Finite (10 ^ 9)) \<rparr>"
    and ps: "profitChartData (Some r) = Some ps" "length ps = 2"
      "\<forall>i<2. ps ! i =
          \<lparr> profit_point.year = fiscal_year ([period_2024, period_bare] ! (2 - 1 - i)),
            netIncome =
              fdiv (Finite
                (case net_income_loss (income_statement
                         (financials ([period_2024, period_bare] ! (2 - 1 - i)))) of
                   None \<Rightarrow> 0 | Some m \<Rightarrow> metric.value m))
                (Finite (10 ^ 9)) \<rparr>"
    by auto
  from rs(3) have "rs ! 0 = \<lparr> revenue_point.year = ''2023'', revenue = Finite 0 \<rparr>"
    and "rs ! 1 = \<lparr> revenue_point.year = ''2024'', revenue = Finite 100 \<rparr>"
    by (simp_all add: period_2024_def period_bare_def fl_numeral fl_0)
  with rs(2) have a: "rs = [ \<lparr> revenue_point.year = ''2023'', revenue = Finite 0 \<rparr>,
            \<lparr> revenue_point.year = ''2024'', revenue = Finite 100 \<rparr> ]"
    by (intro nth_equalityI) (auto simp: less_Suc_eq numeral_2_eq_2)
  from ps(3) have "ps ! 0 = \<lparr> profit_point.year = ''2023'', netIncome = Finite 0 \<rparr>"
    and "ps ! 1 = \<lparr> profit_point.year = ''2024'', netIncome = Finite 25 \<rparr>"
    by (simp_all add: period_2024_def period_bare_def fl_numeral fl_0)
  with ps(2) have b: "ps = [ \<lparr> profit_point.year = ''2023'', netIncome = Finite 0 \<rparr>,
            \<lparr> profit_point.year = ''2024'', netIncome = Finite 25 \<rparr> ]"
    by (intro nth_equalityI) (auto simp: less_Suc_eq numeral_2_eq_2)
  from a b rs(1) ps(1) show ?thesis
    by (simp add: r_def)
qed


section \<open>Currency formatting\<close>

text \<open>
  The number \<open>1e33\<close>: its quotient by \<open>10^12\<close> is the number \<open>10^21\<close>, which \<open>toFixed\<close> prints in
  exponent notation.
\<close>

theorem trillions_in_exponent_notation:
  "0 \<le> decillion \<and> 10 ^ 12 \<le> decillion
   \<and> formatCurrency example_host decillion = ''$1e+21T''"
  by (simp add: formatCurrency_decillion) (simp add: decillion_def)

text \<open>
  Claim C4, as amended. For a value from \<open>10^12\<close> up to \<open>10^33 - 2^17 * 10^12\<close>, which every
  number below \<open>1e33\<close> is, \<open>formatCurrency\<close> gives \<open>$\<close>, the value over \<open>10^12\<close> (rounded to a
  number) to two decimals, and \<open>T\<close>; from \<open>10^9\<close> up to \<open>10^12\<close> the same over \<open>10^9\<close> with \<open>B\<close>;
  from \<open>10^6\<close> up to \<open>10^9\<close> the same over \<open>10^6\<close> with \<open>M\<close>; and below \<open>10^6\<close> it gives \<open>$\<close> and
  the value as the host's locale prints it. The values 1500000000, 2300000000000 and
  1005000000 give \<open>$1.50B\<close>, \<open>$2.30T\<close> and \<open>$1.00B\<close>; the last quotient is the number just below
  1.005. Under the \<open>en-US\<close> locale, 999, 123456, 999999 and 1234.5 give \<open>$999\<close>, \<open>$123,456\<close>,
  \<open>$999,999\<close> and \<open>$1,234.5\<close>.

  The claim as stated has two decimals for every value from \<open>10^12\<close> up; the number \<open>1e33\<close>
  above shows otherwise. This is \<open>formatCurrency\<close> of lines 223 to 228; the one of the earlier
  variant of the page (\<open>formatCurrency_basic\<close>, lines 783 to 787) has no \<open>T\<close> band.
\<close>

theorem formatCurrency_bands:
  "(10 ^ 12 \<le> v \<and> v \<le> 10 ^ 12 * (10 ^ 21 - 2 ^ 17) \<longrightarrow>
      (\<exists>x. fdiv (Finite v) (Finite (10 ^ 12)) = Finite x
         \<and> formatCurrency h v = ''$'' @ two_decimals x @ ''T''))
   \<and> (10 ^ 9 \<le> v \<and> v < 10 ^ 12 \<longrightarrow>
      (\<exists>x. fdiv (Finite v) (Finite (10 ^ 9)) = Finite x
         \<and> formatCurrency h v = ''$'' @ two_decimals x @ ''B''))
   \<and> (10 ^ 6 \<le> v \<and> v < 10 ^ 9 \<longrightarrow>
      (\<exists>x. fdiv (Finite v) (Finite (10 ^ 6)) = Finite x
         \<and> formatCurrency h v = ''$'' @ two_decimals x @ ''M''))
   \<and> (v < 10 ^ 6 \<longrightarrow> formatCurrency h v = ''$'' @ localeFormat h v)
   \<and> formatCurrency h 1500000000 = ''$1.50B''
   \<and> formatCurrency h 2300000000000 = ''$2.30T''
   \<and> formatCurrency h 1005000000 = ''$1.00B''
   \<and> (localeFormat h = en_US \<longrightarrow>
        formatCurrency h 999 = ''$999'' \<and> formatCurrency h 123456 = ''$123,456''
        \<and> formatCurrency h 999999 = ''$999,999'' \<and> formatCurrency h 1234.5 = ''$1,234.5'')"
proof (intro conjI impI)
  assume t: "10 ^ 12 \<le> v \<and> v \<le> 10 ^ 12 * (10 ^ 21 - 2 ^ 17)"
  then have "1 \<le> v / 10 ^ 12" and "v / 10 ^ 12 \<le> 10 ^ 21 - 2 ^ 17"
    by (simp_all add: divide_simps)
  then obtain y where "fl (v / 10 ^ 12) = Finite y"
    and "toFixed 2 (Finite y) = two_decimals y"
    using trillions_two_decimals by blast
  with t show "\<exists>x. fdiv (Finite v) (Finite (10 ^ 12)) = Finite x
         \<and> formatCurrency h v = ''$'' @ two_decimals x @ ''T''"
    by (simp add: formatCurrency_def)
next
  assume b: "10 ^ 9 \<le> v \<and> v < 10 ^ 12"
  then have "1 \<le> v / 10 ^ 9" and "v / 10 ^ 9 < 1024"
    by (simp_all add: divide_simps)
  then obtain y where "fl (v / 10 ^ 9) = Finite y"
    and "toFixed 2 (Finite y) = two_decimals y"
    using quotient_two_decimals by blast
  with b show "\<exists>x. fdiv (Finite v) (Finite (10 ^ 9)) = Finite x
         \<and> formatCurrency h v = ''$'' @ two_decimals x @ ''B''"
    by (simp add: formatCurrency_def)
next
  assume m: "10 ^ 6 \<le> v \<and> v < 10 ^ 9"
  then have "1 \<le> v / 10 ^ 6" and "v / 10 ^ 6 < 1024"
    by (simp_all add: divide_simps)
  then obtain y where "fl (v / 10 ^ 6) = Finite y"
    and "toFixed 2 (Finite y) = two_decimals y"
    using quotient_two_decimals by blast
  with m show "\<exists>x. fdiv (Finite v) (Finite (10 ^ 6)) = Finite x
         \<and> formatCurrency h v = ''$'' @ two_decimals x @ ''M''"
    by (simp add: formatCurrency_def)
next
  assume "v < 10 ^ 6"
  then show "formatCurrency h v = ''$'' @ localeFormat h v"
    by (simp add: formatCurrency_def)
next
  show "formatCurrency h 1500000000 = ''$1.50B''"
    "formatCurrency h 2300000000000 = ''$2.30T''"
    "formatCurrency h 1005000000 = ''$1.00B''"
    by (rule formatCurrency_examples)+
next
  assume l: "localeFormat h = en_US"
  then show "formatCurrency h 999 = ''$999''"
    and "formatCurrency h 123456 = ''$123,456''"
    and "formatCurrency h 999999 = ''$999,999''"
    and "formatCurrency h 1234.5 = ''$1,234.5''"
    by (simp_all add: formatCurrency_def en_US_999 en_US_123456 en_US_999999 en_US_1234_5)
qed

theorem formatCurrency_bands_witness:
  "formatCurrency example_host 7000000000000 = ''$7.00T''
   \<and> formatCurrency example_host 1500000000 = ''$1.50B''
   \<and> formatCurrency example_host 2000000 = ''$2.00M''
   \<and> formatCurrency example_host 123456 = ''$123,456''
   \<and> formatCurrency example_host 1234.5 = ''$1,234.5''"
proof -
  note f = formatCurrency_bands [where h = example_host]
  have t: "(10::real) ^ 12 \<le> 7000000000000 \<and> (7000000000000::real) \<le> 10 ^ 12 * (10 ^ 21 - 2 ^ 17)"
    by simp
  have b: "(10::real) ^ 9 \<le> 1500000000 \<and> (1500000000::real) < 10 ^ 12"
    by simp
  have m: "(10::real) ^ 6 \<le> 2000000 \<and> (2000000::real) < 10 ^ 9"
    by simp
  have l: "localeFormat example_host = en_US"
    by (simp add: example_host_def)
  have q: "fdiv (Finite 7000000000000) (Finite (10 ^ 12)) = Finite 7"
    "fdiv (Finite 1500000000) (Finite (10 ^ 9)) = Finite (3 / 2)"
    "fdiv (Finite 2000000) (Finite (10 ^ 6)) = Finite 2"
    by (simp_all add: fl_numeral fl_3_2)
  have d: "two_decimals 7 = ''7.00''" "two_decimals (3 / 2) = ''1.50''"
    "two_decimals 2 = ''2.00''"
    by (simp_all add: two_decimals_def digits_big digits_small hex_char_def)
  from f [where v = 7000000000000] t
  obtain x where "fdiv (Finite 7000000000000) (Finite (10 ^ 12)) = Finite x"
    and "formatCurrency example_host 7000000000000 = ''$'' @ two_decimals x @ ''T''"
    by blast
  with q(1) d(1) have 1: "formatCurrency example_host 7000000000000 = ''$7.00T''"
    by simp
  from f [where v = 1500000000] b
  obtain y where y: "fdiv (Finite 1500000000) (Finite (10 ^ 9)) = Finite y"
    and c: "formatCurrency example_host 1500000000 = ''$'' @ two_decimals y @ ''B''"
    by blast
  from y have "3 / 2 = y"
    unfolding q(2) by (simp only: number.inject)
  with c have "formatCurrency example_host 1500000000 = ''$'' @ two_decimals (3 / 2) @ ''B''"
    by (simp only:)
  then have 2: "formatCurrency example_host 1500000000 = ''$1.50B''"
    unfolding d(2) by simp
  from f [where v = 2000000] m
  obtain z where "fdiv (Finite 2000000) (Finite (10 ^ 6)) = Finite z"
    and "formatCurrency example_host 2000000 = ''$'' @ two_decimals z @ ''M''"
    by blast
  with q(3) d(3) have 3: "formatCurrency example_host 2000000 = ''$2.00M''"
    by simp
  from f [where v = 0] l
  have 4: "formatCurrency example_host 123456 = ''$123,456''"
    and 5: "formatCurrency example_host 1234.5 = ''$1,234.5''"
    by blast+
  from 1 2 3 4 5 show ?thesis by blast
qed


section \<open>The cash-flow projection\<close>





section \<open>Determinism\<close>





section \<open>The search endpoint\<close>

text \<open>
  A query of one space: it passes the check of the handler, one call goes to the provider
  with the space percent-encoded, and the answer of the provider is relayed with status 200.
\<close>

theorem blank_query_reaches_upstream:
  "list_all isWhiteSpace '' ''
   \<and> get_search KeyInUrl example_key upstream_ok (Some '' '') =
       (\<lparr> status = 200, json = DataBody 1 \<rparr>,
        [\<lparr> url = ''https://api.polygon.io/v3/reference/tickers?search=%20&active=true&limit=10&apiKey=k3y'',
           headers = [] \<rparr>])
   \<and> get_search KeyInHeaders example_key upstream_ok (Some '' '') =
       (\<lparr> status = 200, json = DataBody 1 \<rparr>,
        [\<lparr> url = ''https://api.polygon.io/v3/reference/tickers?search=%20&active=true&limit=10'',
           headers = [(''Authorization'', ''Bearer k3y''), (''X-Polygon-API-Key'', ''k3y'')] \<rparr>])"
  by (simp add: isWhiteSpace_def get_search_def falsy_def answer_def provider_def fetch_url_def
      polygonFetch_def authHeaders_def relay_def upstream_ok_def example_key_def
      POLYGON_BASE_URL_def encodeURIComponent_blank Let_def)

text \<open>
  Claim C1, as amended. A search request whose parameter \<open>q\<close> is absent or empty is answered
  with status 400 and a message that names the parameter, and no call to the provider is
  made. Every other \<open>q\<close>, one made of white space included, passes the check, and exactly one
  call to the provider is made. This holds for both texts of \<open>routes.ts\<close>. The claim as stated
  has the queries made of white space rejected as well.
\<close>

theorem search_requires_q:
  "(q = None \<or> q = Some [] \<longrightarrow>
      get_search var key fetch q =
        (\<lparr> status = 400, json = ErrorBody ''Query parameter 'q' is required'' \<rparr>, []))
   \<and> (q = Some s \<and> s \<noteq> [] \<longrightarrow> (\<exists>call. snd (get_search var key fetch q) = [call]))"
proof (intro conjI impI)
  assume "q = None \<or> q = Some []"
  then show "get_search var key fetch q =
        (\<lparr> status = 400, json = ErrorBody ''Query parameter 'q' is required'' \<rparr>, [])"
    by (auto simp: get_search_def falsy_def bad_request_def)
next
  assume "q = Some s \<and> s \<noteq> []"
  then have "\<not> falsy q" by (simp add: falsy_def)
  then show "\<exists>call. snd (get_search var key fetch q) = [call]"
    using provider_one_call by (simp add: get_search_def)
qed

theorem search_requires_q_witness:
  "get_search KeyInUrl example_key upstream_ok None =
     (\<lparr> status = 400, json = ErrorBody ''Query parameter 'q' is required'' \<rparr>, [])
   \<and> get_search KeyInHeaders example_key upstream_ok (Some []) =
     (\<lparr> status = 400, json = ErrorBody ''Query parameter 'q' is required'' \<rparr>, [])
   \<and> length (snd (get_search KeyInHeaders example_key upstream_ok (Some ''nike''))) = 1"
proof -
  have n: "''nike'' \<noteq> []" by simp
  from search_requires_q [where q = None and var = KeyInUrl and key = example_key and fetch = upstream_ok]
  have 1: "get_search KeyInUrl example_key upstream_ok None =
     (\<lparr> status = 400, json = ErrorBody ''Query parameter 'q' is required'' \<rparr>, [])"
    by blast
  from search_requires_q [where q = "Some []" and var = KeyInHeaders and key = example_key and fetch = upstream_ok]
  have 2: "get_search KeyInHeaders example_key upstream_ok (Some []) =
     (\<lparr> status = 400, json = ErrorBody ''Query parameter 'q' is required'' \<rparr>, [])"
    by blast
  from n search_requires_q [where q = "Some ''nike''" and s = "''nike''" and var = KeyInHeaders
      and key = example_key and fetch = upstream_ok]
  obtain call where "snd (get_search KeyInHeaders example_key upstream_ok (Some ''nike'')) = [call]"
    by blast
  then have 3: "length (snd (get_search KeyInHeaders example_key upstream_ok (Some ''nike''))) = 1"
    by simp
  from 1 2 3 show ?thesis by blast
qed


section \<open>Failures of the provider\<close>

text \<open>
  Two failures on the details operation. The provider refuses the call with the status
  text \<open>Forbidden\<close> and the body of its response cannot be read: \<open>polygonFetch\<close> fails in
  \<open>response.text()\<close>, and the reply carries the message of that failure, in which the status
  text does not occur. The provider cannot be reached: there is no response and no status
  text, and the reply carries the message of the rejection.
\<close>

theorem failure_without_status_text:
  "accepted (Details ''AAPL'')
   \<and> (\<forall>call. upstream_unreadable call = Resolves
         \<lparr> ok = False, statusText = ''Forbidden'', text_result = Inl ''body unreadable'',
           json_result = Inl ''body unreadable'' \<rparr>)
   \<and> fst (handle KeyInHeaders example_key upstream_unreadable (Details ''AAPL'')) =
       \<lparr> status = 500, json = ErrorBody ''body unreadable'' \<rparr>
   \<and> \<not> sublist ''Forbidden'' ''body unreadable''
   \<and> (\<forall>call. upstream_down call = Rejects ''fetch failed'')
   \<and> fst (handle KeyInUrl example_key upstream_down (Details ''AAPL'')) =
       \<lparr> status = 500, json = ErrorBody ''fetch failed'' \<rparr>"
proof -
  have "fst (handle KeyInHeaders example_key upstream_unreadable (Details ''AAPL'')) =
       \<lparr> status = 500, json = ErrorBody ''body unreadable'' \<rparr>"
    by (simp add: get_details_def answer_def provider_def polygonFetch_def relay_def
        server_error_def upstream_unreadable_def Let_def)
  moreover have "fst (handle KeyInUrl example_key upstream_down (Details ''AAPL'')) =
       \<lparr> status = 500, json = ErrorBody ''fetch failed'' \<rparr>"
    by (simp add: get_details_def answer_def provider_def fetch_url_def relay_def
        server_error_def upstream_down_def Let_def)
  moreover have "\<not> sublist ''Forbidden'' ''body unreadable''"
  proof
    assume "sublist ''Forbidden'' ''body unreadable''"
    then have "set ''Forbidden'' \<subseteq> set ''body unreadable''"
      by (rule set_mono_sublist)
    then show False by simp
  qed
  ultimately show ?thesis
    by (simp add: upstream_unreadable_def upstream_down_def)
qed

text \<open>
  Claim C6, as amended. For each of the five operations, in both texts of \<open>routes.ts\<close>, a
  request that passes the parameter checks makes exactly one call to the provider: there is
  no second attempt, and a handler has no store in which an answer could be kept. If the
  provider answers the call with a status that is not a success (and, in \<open>polygonFetch\<close>, the
  body of that response can be read), the reply has status 500 and the message
  \<open>Polygon API error: \<close> followed by the status text; nothing else of the response, and no
  part of its body, is in the reply. If \<open>fetch\<close> rejects or, in \<open>polygonFetch\<close>, the body of the
  refused response cannot be read, the reply has status 500 and the message of that failure.

  The claim as stated has the status text in the message of every such reply; the two
  failures above show otherwise.
\<close>

theorem upstream_failure_is_500:
  assumes "accepted req"
  shows "\<exists>call. snd (handle var key fetch req) = [call]
       \<and> (\<forall>r. fetch call = Resolves r \<and> \<not> ok r
              \<and> (var = KeyInHeaders \<longrightarrow> (\<exists>b. text_result r = Inr b)) \<longrightarrow>
            fst (handle var key fetch req) =
              \<lparr> status = 500, json = ErrorBody (''Polygon API error: '' @ statusText r) \<rparr>)
       \<and> (\<forall>r msg. fetch call = Resolves r \<and> \<not> ok r
              \<and> var = KeyInHeaders \<and> text_result r = Inl msg \<longrightarrow>
            fst (handle var key fetch req) = \<lparr> status = 500, json = ErrorBody msg \<rparr>)
       \<and> (\<forall>msg. fetch call = Rejects msg \<longrightarrow>
            fst (handle var key fetch req) = \<lparr> status = 500, json = ErrorBody msg \<rparr>)"
proof -
  have via: "\<exists>p sep. handle var key fetch req = answer (provider var key fetch p sep)"
    using assms by (cases req) (auto simp: get_search_def get_details_def get_income_def
        get_aggregates_def get_previous_def)
  then obtain p sep where h: "handle var key fetch req = answer (provider var key fetch p sep)"
    by blast
  from provider_one_call
  obtain call where c: "snd (answer (provider var key fetch p sep)) = [call]"
    by blast
  from provider_failure [OF c] c show ?thesis
    unfolding h by blast
qed

theorem upstream_failure_is_500_witness:
  "accepted (Details ''AAPL'')
   \<and> handle KeyInHeaders example_key upstream_forbidden (Details ''AAPL'') =
       (\<lparr> status = 500, json = ErrorBody ''Polygon API error: Forbidden'' \<rparr>,
        [\<lparr> url = ''https://api.polygon.io/v3/reference/tickers/AAPL'',
           headers = [(''Authorization'', ''Bearer k3y''), (''X-Polygon-API-Key'', ''k3y'')] \<rparr>])
   \<and> fst (handle KeyInUrl example_key upstream_down (Details ''AAPL'')) =
       \<lparr> status = 500, json = ErrorBody ''fetch failed'' \<rparr>"
proof -
  have acc: "accepted (Details ''AAPL'')" by simp
  have calls: "snd (handle KeyInHeaders example_key upstream_forbidden (Details ''AAPL'')) =
        [\<lparr> url = ''https://api.polygon.io/v3/reference/tickers/AAPL'',
           headers = [(''Authorization'', ''Bearer k3y''), (''X-Polygon-API-Key'', ''k3y'')] \<rparr>]"
    by (simp add: get_details_def answer_def provider_def polygonFetch_def authHeaders_def
        example_key_def POLYGON_BASE_URL_def encodeURIComponent_def encodeChar_def
        uriUnreserved_def Let_def)
  from upstream_failure_is_500 [OF acc, of KeyInHeaders example_key upstream_forbidden]
  obtain call where c: "snd (handle KeyInHeaders example_key upstream_forbidden (Details ''AAPL'')) = [call]"
    and f: "\<forall>r. upstream_forbidden call = Resolves r \<and> \<not> ok r
              \<and> (KeyInHeaders = KeyInHeaders \<longrightarrow> (\<exists>b. text_result r = Inr b)) \<longrightarrow>
            fst (handle KeyInHeaders example_key upstream_forbidden (Details ''AAPL'')) =
              \<lparr> status = 500, json = ErrorBody (''Polygon API error: '' @ statusText r) \<rparr>"
    by blast
  have "upstream_forbidden call = Resolves
     \<lparr> ok = False, statusText = ''Forbidden'', text_result = Inr ''upgrade your plan'',
       json_result = Inr 2 \<rparr>"
    by (simp add: upstream_forbidden_def)
  with f have 1: "fst (handle KeyInHeaders example_key upstream_forbidden (Details ''AAPL'')) =
      \<lparr> status = 500, json = ErrorBody ''Polygon API error: Forbidden'' \<rparr>"
    by fastforce
  from upstream_failure_is_500 [OF acc, of KeyInUrl example_key upstream_down]
  obtain call' where
    g: "\<forall>msg. upstream_down call' = Rejects msg \<longrightarrow>
            fst (handle KeyInUrl example_key upstream_down (Details ''AAPL'')) =
              \<lparr> status = 500, json = ErrorBody msg \<rparr>"
    by blast
  have "upstream_down call' = Rejects ''fetch failed''"
    by (simp add: upstream_down_def)
  with g have 2: "fst (handle KeyInUrl example_key upstream_down (Details ''AAPL'')) =
       \<lparr> status = 500, json = ErrorBody ''fetch failed'' \<rparr>"
    by blast
  from acc 1 2 calls show ?thesis
    by (simp add: prod_eq_iff)
qed

end
